theory Spec2Isabelle
  imports Complex_Main
begin

section \<open>Trading sessions\<close>

text \<open>
  Times are JavaScript epoch milliseconds, modelled as \<open>int\<close>. \<open>Date.getUTCHours\<close>
  is the hour of the day of the time value, computed with the floor-based division of the
  language standard (so it is also right before 1970).
\<close>

datatype session = asia_session | london_session | new_york_session | limbo_session

definition msPerHour :: int where
  "msPerHour = 60 * 60 * 1000"

definition getUTCHours :: "int \<Rightarrow> int" where
  "getUTCHours t = (t div msPerHour) mod 24"

text \<open>A \<open>Date\<close> holds a time value only within 8.64e15 ms of the epoch; outside it is invalid
  and every hour comparison on it is false.\<close>

definition validDate :: "int \<Rightarrow> bool" where
  "validDate t = (\<bar>t\<bar> \<le> 8640000000000000)"

text \<open>\<open>getCurrentTradingSession\<close> (database module), the definition the live trading gate
  uses. The clock reading \<open>new Date()\<close> is the argument. The four tests are tried in the
  order of the source: london, new york, limbo, asia.\<close>

definition getCurrentTradingSession :: "int \<Rightarrow> session option" where
  "getCurrentTradingSession now =
     (let utcHour = getUTCHours now in
      if utcHour \<ge> 6 \<and> utcHour < 14 then Some london_session
      else if utcHour \<ge> 12 \<and> utcHour < 20 then Some new_york_session
      else if utcHour \<ge> 2 \<and> utcHour < 8 then Some limbo_session
      else if utcHour \<ge> 22 \<or> utcHour < 6 then Some asia_session
      else None)"

text \<open>\<open>getTradingSessionForTimestamp\<close> of the statistics handler (\<open>server.ts\<close>, inside
  the handler of the statistics endpoint, called with the open time of every closed order):
  the hour is read three hours before UTC. The argument is the time value of
  \<open>new Date(timestamp)\<close>, \<open>None\<close> when that date is invalid; on an invalid date every
  comparison is false and the answer is \<open>unknown_session\<close>.\<close>

datatype statistics_session = InSession session | unknown_session

definition getTradingSessionForTimestamp :: "int option \<Rightarrow> statistics_session" where
  "getTradingSessionForTimestamp timestamp =
     (case timestamp of
        None \<Rightarrow> unknown_session
      | Some t \<Rightarrow>
          if \<not> validDate t then unknown_session
          else
            (let hours = getUTCHours t - 3;
                 adjustedHours = (if hours < 0 then hours + 24 else hours)
             in if adjustedHours \<ge> 21 \<or> adjustedHours < 5 then InSession asia_session
                else if adjustedHours \<ge> 5 \<and> adjustedHours < 10 then InSession london_session
                else if adjustedHours \<ge> 10 \<and> adjustedHours < 18 then InSession new_york_session
                else if adjustedHours \<ge> 18 \<and> adjustedHours < 21 then InSession limbo_session
                else unknown_session))"

section \<open>JavaScript numbers\<close>

text \<open>
  A JavaScript \<open>number\<close> is an IEEE 754 double. It is modelled by the real number it
  denotes; every arithmetic operation computes the exact result and rounds it to the nearest
  double, ties to even (\<open>fl\<close>). Subnormal numbers are covered; infinities and NaN are not
  (prices, pips and percentages stay far from 1.8e308, and no divisor below is zero for the
  instrument table of this program).
\<close>

definition pow2 :: "int \<Rightarrow> real" where
  "pow2 e = (if e \<ge> 0 then 2 ^ nat e else 1 / 2 ^ nat (- e))"

definition roundHalfEven :: "real \<Rightarrow> int" where
  "roundHalfEven r =
     (let n = \<lfloor>r\<rfloor>; d = r - of_int n in
      if d < 1 / 2 then n else if d > 1 / 2 then n + 1
      else if even n then n else n + 1)"

text \<open>The binary exponent of a positive number: \<open>log2up\<close> counts the halvings that bring
  a number of at least 1 below 2, \<open>log2down\<close> the doublings that bring a number below 1 up
  to 1.\<close>

function log2up :: "real \<Rightarrow> int" where
  "log2up a = (if a \<ge> 2 then log2up (a / 2) + 1 else 0)"
  by pat_completeness auto
termination
proof (relation "measure (\<lambda>a. nat \<lfloor>a\<rfloor>)")
  show "wf (measure (\<lambda>a::real. nat \<lfloor>a\<rfloor>))" by simp
next
  fix a :: real
  assume a: "2 \<le> a"
  have "a / 2 \<le> a - 1" using a by simp
  then have "\<lfloor>a / 2\<rfloor> \<le> \<lfloor>a - 1\<rfloor>" by (rule floor_mono)
  also have "\<dots> = \<lfloor>a\<rfloor> - 1" by simp
  finally have "\<lfloor>a / 2\<rfloor> < \<lfloor>a\<rfloor>" by simp
  moreover have "0 < \<lfloor>a\<rfloor>" using a by simp
  ultimately show "(a / 2, a) \<in> measure (\<lambda>a. nat \<lfloor>a\<rfloor>)"
    by simp
qed

function log2down :: "real \<Rightarrow> int" where
  "log2down a = (if 0 < a \<and> a < 1 then log2down (a * 2) - 1 else 0)"
  by pat_completeness auto
termination
proof (relation "measure (\<lambda>a. nat \<lfloor>1 / a\<rfloor>)")
  show "wf (measure (\<lambda>a::real. nat \<lfloor>1 / a\<rfloor>))" by simp
next
  fix a :: real
  assume "0 < a \<and> a < 1"
  then have a: "0 < a" "a < 1" by simp_all
  define x where "x = 1 / a"
  have x: "1 \<le> x" using a by (simp add: x_def)
  have f: "1 \<le> \<lfloor>x\<rfloor>" using x by simp
  have "x / 2 < of_int \<lfloor>x\<rfloor>"
  proof -
    have "x < of_int \<lfloor>x\<rfloor> + 1" by linarith
    moreover have "(1::real) \<le> of_int \<lfloor>x\<rfloor>" using f by simp
    ultimately show ?thesis by linarith
  qed
  then have "\<lfloor>x / 2\<rfloor> < \<lfloor>x\<rfloor>" by (simp add: floor_less_iff)
  then have lt: "nat \<lfloor>x / 2\<rfloor> < nat \<lfloor>x\<rfloor>" using f by linarith
  have e: "1 / (a * 2) = x / 2" by (simp add: x_def)
  show "(a * 2, a) \<in> measure (\<lambda>a. nat \<lfloor>1 / a\<rfloor>)"
    using lt by (simp only: in_measure e x_def [symmetric])
qed

declare log2up.simps [simp del] log2down.simps [simp del]

definition binaryExponent :: "real \<Rightarrow> int" where
  "binaryExponent a = (if a \<ge> 1 then log2up a else log2down a)"

text \<open>The spacing of the doubles around a positive number: 52 fraction bits, and the
  smallest normal exponent \<open>-1022\<close> below which the spacing stays that of the subnormals.\<close>

definition ulp :: "real \<Rightarrow> real" where
  "ulp a = pow2 (max (binaryExponent a) (- 1022) - 52)"

definition flAbs :: "real \<Rightarrow> real" where
  "flAbs a = of_int (roundHalfEven (a / ulp a)) * ulp a"

definition fl :: "real \<Rightarrow> real" where
  "fl x = (if x = 0 then 0 else if x > 0 then flAbs x else - flAbs (- x))"

definition jsAdd :: "real \<Rightarrow> real \<Rightarrow> real" where
  "jsAdd a b = fl (a + b)"

definition jsSub :: "real \<Rightarrow> real \<Rightarrow> real" where
  "jsSub a b = fl (a - b)"

definition jsMul :: "real \<Rightarrow> real \<Rightarrow> real" where
  "jsMul a b = fl (a * b)"

definition jsDiv :: "real \<Rightarrow> real \<Rightarrow> real" where
  "jsDiv a b = fl (a / b)"

text \<open>\<open>Math.round\<close> rounds to the nearest integer, a tie towards plus infinity.\<close>

definition mathRound :: "real \<Rightarrow> real" where
  "mathRound x = of_int \<lfloor>x + 1 / 2\<rfloor>"

text \<open>\<open>Number(x.toFixed(d))\<close>: \<open>toFixed\<close> writes the decimal with \<open>d\<close> fraction digits
  nearest to the exact value of the magnitude of \<open>x\<close> (of two equally near, the larger), and
  \<open>Number\<close> reads that decimal back as the nearest double.\<close>

definition toFixedNumber :: "nat \<Rightarrow> real \<Rightarrow> real" where
  "toFixedNumber d x =
     (if x < 0 then - fl (of_int \<lfloor>- x * 10 ^ d + 1 / 2\<rfloor> / 10 ^ d)
      else fl (of_int \<lfloor>x * 10 ^ d + 1 / 2\<rfloor> / 10 ^ d))"

section \<open>Strings\<close>

text \<open>Symbols are ASCII. \<open>toUpperCase\<close> maps the letters a to z; \<open>includes\<close> on a string (\<open>includesStr\<close>) is
  the substring test; \<open>replace(/^[A-Z]+:/, '')\<close> drops a leading run of at least one capital
  letter that is followed by a colon.\<close>

definition upperLetters :: string where
  "upperLetters = ''ABCDEFGHIJKLMNOPQRSTUVWXYZ''"

definition lowerLetters :: string where
  "lowerLetters = ''abcdefghijklmnopqrstuvwxyz''"

definition isUpperAZ :: "char \<Rightarrow> bool" where
  "isUpperAZ c = (c \<in> set upperLetters)"

definition toUpperChar :: "char \<Rightarrow> char" where
  "toUpperChar c = (case map_of (zip lowerLetters upperLetters) c of Some u \<Rightarrow> u | None \<Rightarrow> c)"

definition toUpperCase :: "string \<Rightarrow> string" where
  "toUpperCase s = map toUpperChar s"

fun startsWith :: "string \<Rightarrow> string \<Rightarrow> bool" where
  "startsWith s [] = True"
| "startsWith [] (c # cs) = False"
| "startsWith (x # xs) (c # cs) = (x = c \<and> startsWith xs cs)"

fun includesStr :: "string \<Rightarrow> string \<Rightarrow> bool" where
  "includesStr [] sub = (sub = [])"
| "includesStr (x # xs) sub = (startsWith (x # xs) sub \<or> includesStr xs sub)"

definition removeExchangePrefix :: "string \<Rightarrow> string" where
  "removeExchangePrefix s =
     (case dropWhile isUpperAZ s of
        [] \<Rightarrow> s
      | c # rest \<Rightarrow> if takeWhile isUpperAZ s \<noteq> [] \<and> c = CHR '':'' then rest else s)"

section \<open>Instrument specifications and price levels\<close>

datatype instrument_type = index | forex

record InstrumentSpecs =
  type :: instrument_type
  pipValue :: real
  minDistance :: real
  decimals :: nat
  minTPDistance :: real
  minSLDistance :: real

definition forexPairs :: "string list" where
  "forexPairs = [''EURUSD'', ''GBPUSD'', ''USDJPY'', ''AUDUSD'', ''USDCAD'', ''NZDUSD'',
     ''EURGBP'', ''EURJPY'', ''GBPJPY'']"

definition indices :: "string list" where
  "indices = [''US100'', ''US30'', ''NAS100'', ''SPX500'', ''GER40'', ''UK100'', ''JPN225'',
     ''US500'', ''TECH100'']"

text \<open>\<open>getInstrumentSpecs\<close>. The decimal literals of the source are the doubles nearest to
  them.\<close>

definition getInstrumentSpecs :: "string \<Rightarrow> InstrumentSpecs" where
  "getInstrumentSpecs symbol =
     (let cleanSymbol = toUpperCase (removeExchangePrefix symbol) in
      if cleanSymbol \<in> set indices then
        \<lparr>type = index, pipValue = 1, minDistance = 20, decimals = 1,
         minTPDistance = 20, minSLDistance = 20\<rparr>
      else if cleanSymbol \<in> set forexPairs then
        (let isJPYPair = includesStr cleanSymbol ''JPY'' in
         \<lparr>type = forex,
          pipValue = (if isJPYPair then fl (1 / 100) else fl (1 / 10000)),
          minDistance = (if isJPYPair then fl (1 / 10) else fl (1 / 1000)),
          decimals = (if isJPYPair then 3 else 5),
          minTPDistance = 10, minSLDistance = 10\<rparr>)
      else
        \<lparr>type = forex, pipValue = fl (1 / 10000), minDistance = fl (1 / 1000), decimals = 5,
         minTPDistance = 10, minSLDistance = 10\<rparr>)"

definition isBuy :: "string \<Rightarrow> bool" where
  "isBuy side = (side = ''BUY'' \<or> side = ''B'')"

text \<open>A value of type \<open>number | null\<close> is an option; it is truthy when it is a number other
  than zero.\<close>

definition truthy :: "real option \<Rightarrow> bool" where
  "truthy v = (case v of None \<Rightarrow> False | Some x \<Rightarrow> x \<noteq> 0)"

definition formatPrice :: "InstrumentSpecs \<Rightarrow> real \<Rightarrow> real" where
  "formatPrice specs price =
     (if type specs = index then jsDiv (mathRound (jsMul price 10)) 10
      else toFixedNumber (decimals specs) price)"

text \<open>\<open>calculatePriceLevels\<close>: the take-profit and stop-loss prices from the entry price and
  the distances in pips.\<close>

definition calculatePriceLevels ::
  "string \<Rightarrow> real \<Rightarrow> real \<Rightarrow> real option \<Rightarrow> InstrumentSpecs \<Rightarrow> real \<times> real option" where
  "calculatePriceLevels side entryPrice takeProfitPips stopLossPips specs =
     (let takeProfitPrice =
            (if isBuy side then jsAdd entryPrice (jsMul takeProfitPips (pipValue specs))
             else jsSub entryPrice (jsMul takeProfitPips (pipValue specs)));
          stopLossPrice =
            (if truthy stopLossPips then
               Some (if isBuy side then jsSub entryPrice (jsMul (the stopLossPips) (pipValue specs))
                     else jsAdd entryPrice (jsMul (the stopLossPips) (pipValue specs)))
             else None)
      in (formatPrice specs takeProfitPrice,
          if truthy stopLossPrice then Some (formatPrice specs (the stopLossPrice))
          else stopLossPrice))"

datatype price_error =
    TPDistanceBelowMinimum real real
  | SLDistanceBelowMinimum real real
  | BuyTPMustBeAboveEntry
  | BuySLMustBeBelowEntry
  | SellTPMustBeBelowEntry
  | SellSLMustBeAboveEntry

datatype validation = Valid | Invalid price_error

text \<open>\<open>validatePriceLevels\<close>: the distances in pips against the minimum (20 for an index, 10
  otherwise), then the side of the entry price the levels lie on.\<close>

definition validatePriceLevels ::
  "string \<Rightarrow> real \<Rightarrow> real \<Rightarrow> real option \<Rightarrow> InstrumentSpecs \<Rightarrow> validation" where
  "validatePriceLevels side entryPrice takeProfitPrice stopLossPrice specs =
     (let tpDistance = jsDiv \<bar>jsSub takeProfitPrice entryPrice\<bar> (pipValue specs);
          slDistance =
            (if truthy stopLossPrice
             then Some (jsDiv \<bar>jsSub (the stopLossPrice) entryPrice\<bar> (pipValue specs))
             else None);
          minRequired = (if type specs = index then 20 else 10)
      in if tpDistance < minRequired then Invalid (TPDistanceBelowMinimum tpDistance minRequired)
         else if slDistance \<noteq> None \<and> the slDistance < minRequired
           then Invalid (SLDistanceBelowMinimum (the slDistance) minRequired)
         else if isBuy side then
           (if takeProfitPrice \<le> entryPrice then Invalid BuyTPMustBeAboveEntry
            else if truthy stopLossPrice \<and> the stopLossPrice \<ge> entryPrice
              then Invalid BuySLMustBeBelowEntry
            else Valid)
         else
           (if takeProfitPrice \<ge> entryPrice then Invalid SellTPMustBeBelowEntry
            else if truthy stopLossPrice \<and> the stopLossPrice \<le> entryPrice
              then Invalid SellSLMustBeAboveEntry
            else Valid))"

section \<open>Market data: the WebSocket manager\<close>

text \<open>
  The manager keeps its connections in a \<open>Map\<close>, modelled as an association list in
  insertion order. The state record also carries the clock reading \<open>Date.now()\<close>, which
  advances only while the program awaits. What the outside world does during an await (a
  connection attempt, the quote feed) is an input of the model.
\<close>

text \<open>
  The timestamp of a quote is the field \<open>t\<close> of a feed message, which the program stores
  without looking at its type. In arithmetic and comparisons the value counts as the number
  it converts to: \<open>Millis n\<close> stands for a value that converts to the number \<open>n\<close> (a
  number, a numeric string, \<open>null\<close> as 0); \<open>NotANumber\<close> for a value that converts to NaN
  and is truthy (a text that is not a number, an object); \<open>Undefined\<close> for an absent field,
  which converts to NaN and is falsy. Every comparison with NaN is false.
\<close>

datatype time_value = Millis int | NotANumber | Undefined

record quote =
  bid :: real
  ask :: real
  timestamp :: time_value

record MarketData = quote +
  symbol :: string
  isStale :: bool

record ConnectionInfo =
  wsOpen :: bool
  symbols :: "string set"
  lastActivity :: int
  quotes :: "string \<rightharpoonup> quote"
  reconnectCount :: nat

record WebSocketManager =
  connections :: "(string \<times> ConnectionInfo) list"
  totalReconnects :: nat
  clock :: int

text \<open>A quote of a feed message (\<open>s\<close>, \<open>b\<close>, \<open>a\<close>, \<open>t\<close> of the source).\<close>

record FeedQuote =
  fq_symbol :: string
  fq_bid :: real
  fq_ask :: real
  fq_time :: time_value

datatype error =
    ConnectionFailed
  | ConnectionNotHealthy
  | QuoteTimeout
  | ReceivedStaleQuote
  | MarketDataUnavailable "error option"
  | MarketPriceTooOld
  | InvalidPriceLevels price_error
  | VolumeBelowMinimum
  | NoMarketQuote
  | NoMarketQuoteAfterTokenRetry
  | InvalidApiResponse
  | HttpError nat
  | NetworkError
  | TypeError

definition CONNECTION_TIMEOUT :: int where "CONNECTION_TIMEOUT = 30000"
definition PRICE_STALE_THRESHOLD :: int where "PRICE_STALE_THRESHOLD = 10000"
definition MAX_ORDER_RETRIES :: nat where "MAX_ORDER_RETRIES = 3"
definition CONNECTION_RETRY_DELAY_BASE :: int where "CONNECTION_RETRY_DELAY_BASE = 1000"
definition QUOTE_TIMEOUT :: int where "QUOTE_TIMEOUT = 8000"

fun mapSet :: "'k \<Rightarrow> 'v \<Rightarrow> ('k \<times> 'v) list \<Rightarrow> ('k \<times> 'v) list" where
  "mapSet k v [] = [(k, v)]"
| "mapSet k v (p # ps) = (if fst p = k then (k, v) # ps else p # mapSet k v ps)"

definition mapDelete :: "'k \<Rightarrow> ('k \<times> 'v) list \<Rightarrow> ('k \<times> 'v) list" where
  "mapDelete k ps = filter (\<lambda>p. fst p \<noteq> k) ps"

text \<open>\<open>isQuoteStale\<close>: \<open>Date.now() - timestamp > PRICE_STALE_THRESHOLD\<close>, which is false
  when the difference is NaN.\<close>

definition isQuoteStale :: "int \<Rightarrow> time_value \<Rightarrow> bool" where
  "isQuoteStale now ts =
     (case ts of Millis t \<Rightarrow> now - t > PRICE_STALE_THRESHOLD | NotANumber \<Rightarrow> False
      | Undefined \<Rightarrow> False)"

definition isConnectionHealthy :: "int \<Rightarrow> ConnectionInfo \<Rightarrow> bool" where
  "isConnectionHealthy now c = (wsOpen c \<and> now - lastActivity c < CONNECTION_TIMEOUT)"

definition subscribeToSymbol :: "ConnectionInfo \<Rightarrow> string \<Rightarrow> ConnectionInfo" where
  "subscribeToSymbol c smb = (if \<not> wsOpen c then c else c\<lparr>symbols := insert smb (symbols c)\<rparr>)"

text \<open>\<open>establishConnection\<close> resolves in the \<open>open\<close> handler, after it has subscribed the
  symbol on the open socket.\<close>

definition newConnection :: "int \<Rightarrow> string \<Rightarrow> ConnectionInfo" where
  "newConnection now smb =
     \<lparr>wsOpen = True, symbols = {smb}, lastActivity = now, quotes = Map.empty,
      reconnectCount = 0\<rparr>"

text \<open>\<open>handleMessage\<close> for a quote message: a truthy timestamp below 1e12 is taken to be
  in seconds; any other value is stored as it came. The second component is the
  \<open>quoteUpdate\<close> event it emits, if any.\<close>

definition normalizeTimestamp :: "time_value \<Rightarrow> time_value" where
  "normalizeTimestamp ts =
     (case ts of
        Millis t \<Rightarrow> if t \<noteq> 0 \<and> t < 1000000000000 then Millis (t * 1000) else Millis t
      | NotANumber \<Rightarrow> NotANumber
      | Undefined \<Rightarrow> Undefined)"

definition handleMessage ::
  "int \<Rightarrow> FeedQuote \<Rightarrow> ConnectionInfo \<Rightarrow> ConnectionInfo \<times> (string \<times> quote) option" where
  "handleMessage now fq c =
     (let c1 = c\<lparr>lastActivity := now\<rparr> in
      if fq_symbol fq \<in> symbols c1 then
        (let quoteData = \<lparr>bid = fq_bid fq, ask = fq_ask fq,
                          timestamp = normalizeTimestamp (fq_time fq)\<rparr>
         in (c1\<lparr>quotes := (quotes c1)(fq_symbol fq \<mapsto> quoteData)\<rparr>,
             Some (fq_symbol fq, quoteData)))
      else (c1, None))"

text \<open>What happens during the awaits of one attempt of \<open>connectForOrder\<close>: whether
  \<open>createConnection\<close> succeeds and how long it takes, and the first quote message that
  reaches the connection while \<open>waitForQuote\<close> waits, with its delay.\<close>

record AttemptEnv =
  connectOk :: bool
  connectElapsed :: nat
  arrival :: "(nat \<times> FeedQuote) option"

definition awaitQuoteUpdate ::
  "string \<Rightarrow> AttemptEnv \<Rightarrow> ConnectionInfo \<Rightarrow> int \<Rightarrow> (error + quote) \<times> ConnectionInfo \<times> int" where
  "awaitQuoteUpdate smb env c now =
     (case arrival env of
        None \<Rightarrow> (Inl QuoteTimeout, c, now + QUOTE_TIMEOUT)
      | Some (dt, fq) \<Rightarrow>
          if int dt \<ge> QUOTE_TIMEOUT then (Inl QuoteTimeout, c, now + QUOTE_TIMEOUT)
          else (case handleMessage (now + int dt) fq c of
                  (c1, Some (s, q)) \<Rightarrow>
                    if s = smb then
                      (if isQuoteStale (now + int dt) (timestamp q)
                       then (Inl ReceivedStaleQuote, c1, now + int dt)
                       else (Inr q, c1, now + int dt))
                    else (Inl QuoteTimeout, c1, now + QUOTE_TIMEOUT)
                | (c1, None) \<Rightarrow> (Inl QuoteTimeout, c1, now + QUOTE_TIMEOUT)))"

text \<open>\<open>waitForQuote\<close>: the quote already held if it is fresh; a rejection if the connection
  is not healthy; otherwise the first \<open>quoteUpdate\<close> event for the symbol within
  \<open>QUOTE_TIMEOUT\<close>, rejected when its quote is stale.\<close>

definition waitForQuote ::
  "string \<Rightarrow> AttemptEnv \<Rightarrow> ConnectionInfo \<Rightarrow> int \<Rightarrow> (error + quote) \<times> ConnectionInfo \<times> int" where
  "waitForQuote smb env c now =
     (if quotes c smb \<noteq> None \<and> \<not> isQuoteStale now (timestamp (the (quotes c smb)))
      then (Inr (the (quotes c smb)), c, now)
      else if \<not> isConnectionHealthy now c then (Inl ConnectionNotHealthy, c, now)
      else awaitQuoteUpdate smb env c now)"

definition toMarketData :: "string \<Rightarrow> quote \<Rightarrow> MarketData" where
  "toMarketData smb q =
     \<lparr>bid = bid q, ask = ask q, timestamp = timestamp q, symbol = smb, isStale = False\<rparr>"

text \<open>The \<open>try\<close> block of one attempt of \<open>connectForOrder\<close>. The connection key of a single
  symbol is the symbol.\<close>

definition orderAttemptBody ::
  "string \<Rightarrow> AttemptEnv \<Rightarrow> WebSocketManager \<Rightarrow> (error + MarketData) \<times> WebSocketManager" where
  "orderAttemptBody smb env m =
     (let found = map_of (connections m) smb;
          needNew = (case found of None \<Rightarrow> True
                     | Some c \<Rightarrow> \<not> isConnectionHealthy (clock m) c);
          m1 = (if needNew \<and> found \<noteq> None
                then m\<lparr>connections := mapDelete smb (connections m)\<rparr> else m)
      in if needNew \<and> \<not> connectOk env
         then (Inl ConnectionFailed, m1\<lparr>clock := clock m1 + int (connectElapsed env)\<rparr>)
         else
           (let now1 = (if needNew then clock m1 + int (connectElapsed env) else clock m1);
                c0 = (if needNew then newConnection now1 smb else the found);
                c1 = (if smb \<notin> symbols c0 then subscribeToSymbol c0 smb else c0);
                m2 = m1\<lparr>connections := mapSet smb c1 (connections m1), clock := now1\<rparr>;
                existingQuote = quotes c1 smb
            in if existingQuote \<noteq> None \<and> \<not> isQuoteStale now1 (timestamp (the existingQuote))
               then (Inr (toMarketData smb (the existingQuote)), m2)
               else (case waitForQuote smb env c1 now1 of
                       (Inl e, c2, now2) \<Rightarrow>
                         (Inl e, m2\<lparr>connections := mapSet smb c2 (connections m2), clock := now2\<rparr>)
                     | (Inr q, c2, now2) \<Rightarrow>
                         (if isQuoteStale now2 (timestamp q) then Inl ReceivedStaleQuote
                          else Inr (toMarketData smb q),
                          m2\<lparr>connections := mapSet smb c2 (connections m2), clock := now2\<rparr>))))"

text \<open>The \<open>catch\<close> block of an attempt drops the connection and, unless the attempt was the
  last one, waits \<open>attempt * 1000\<close> ms.\<close>

definition orderAttemptCatch :: "string \<Rightarrow> nat \<Rightarrow> nat \<Rightarrow> WebSocketManager \<Rightarrow> WebSocketManager" where
  "orderAttemptCatch smb maxRetries attempt m =
     (if attempt < maxRetries
      then m\<lparr>connections := mapDelete smb (connections m),
             clock := clock m + int attempt * CONNECTION_RETRY_DELAY_BASE\<rparr>
      else m\<lparr>connections := mapDelete smb (connections m)\<rparr>)"

text \<open>The loop of \<open>connectForOrder\<close>, from attempt number \<open>attempt\<close> on.\<close>

function connectForOrderFrom ::
  "string \<Rightarrow> nat \<Rightarrow> (nat \<Rightarrow> AttemptEnv) \<Rightarrow> nat \<Rightarrow> error option \<Rightarrow> WebSocketManager
   \<Rightarrow> (error + MarketData) \<times> WebSocketManager" where
  "connectForOrderFrom smb maxRetries envs attempt lastError m =
     (if attempt \<le> maxRetries then
        (case orderAttemptBody smb (envs attempt) m of
           (Inr md, m1) \<Rightarrow> (Inr md, m1)
         | (Inl e, m1) \<Rightarrow>
             connectForOrderFrom smb maxRetries envs (Suc attempt) (Some e)
               (orderAttemptCatch smb maxRetries attempt m1))
      else (Inl (MarketDataUnavailable lastError), m))"
  by pat_completeness auto
termination
  by (relation "measure (\<lambda>(smb, maxRetries, envs, attempt, lastError, m). Suc maxRetries - attempt)")
    auto

declare connectForOrderFrom.simps [simp del]

definition connectForOrder ::
  "string \<Rightarrow> nat \<Rightarrow> (nat \<Rightarrow> AttemptEnv) \<Rightarrow> WebSocketManager
   \<Rightarrow> (error + MarketData) \<times> WebSocketManager" where
  "connectForOrder smb maxRetries envs m = connectForOrderFrom smb maxRetries envs 1 None m"

definition forceReconnectForSymbol ::
  "string \<Rightarrow> (nat \<Rightarrow> AttemptEnv) \<Rightarrow> WebSocketManager \<Rightarrow> (error + MarketData) \<times> WebSocketManager" where
  "forceReconnectForSymbol smb envs m =
     connectForOrder smb MAX_ORDER_RETRIES envs
       (case map_of (connections m) smb of
          None \<Rightarrow> m
        | Some existingConnection \<Rightarrow>
            m\<lparr>totalReconnects := Suc (totalReconnects m),
              connections := mapDelete smb (connections m)\<rparr>)"

text \<open>\<open>isMarketDataValid\<close>: a falsy number is zero. The timestamp is rejected when it is
  falsy or not above zero; a truthy value that is not a number passes both tests.\<close>

definition isMarketDataValid :: "MarketData \<Rightarrow> bool" where
  "isMarketDataValid marketData =
     (if bid marketData = 0 \<or> ask marketData = 0 \<or> bid marketData \<le> 0 \<or> ask marketData \<le> 0
      then False
      else if ask marketData \<le> bid marketData then False
      else if (case timestamp marketData of
                 Millis t \<Rightarrow> t = 0 \<or> t \<le> 0 | NotANumber \<Rightarrow> False | Undefined \<Rightarrow> True)
        then False
      else (let spread = jsSub (ask marketData) (bid marketData);
                midPrice = jsDiv (jsAdd (bid marketData) (ask marketData)) 2;
                spreadPercentage = jsMul (jsDiv spread midPrice) 100
            in if spreadPercentage > 5 then False else True))"

text \<open>The feed during the first call of \<open>connectForOrder\<close> and during the call made by a
  forced reconnection.\<close>

record MarketEnv =
  firstCall :: "nat \<Rightarrow> AttemptEnv"
  secondCall :: "nat \<Rightarrow> AttemptEnv"

definition getMarketDataWithRetry ::
  "string \<Rightarrow> MarketEnv \<Rightarrow> WebSocketManager \<Rightarrow> (error + MarketData) \<times> WebSocketManager" where
  "getMarketDataWithRetry smb env m =
     (case connectForOrder smb MAX_ORDER_RETRIES (firstCall env) m of
        (Inl e, m1) \<Rightarrow> (Inl e, m1)
      | (Inr marketData, m1) \<Rightarrow>
          if \<not> isMarketDataValid marketData
          then forceReconnectForSymbol smb (secondCall env) m1
          else if isStale marketData \<or> isQuoteStale (clock m1) (timestamp marketData)
          then forceReconnectForSymbol smb (secondCall env) m1
          else (Inr marketData, m1))"

fun getQuoteIn :: "int \<Rightarrow> string \<Rightarrow> (string \<times> ConnectionInfo) list \<Rightarrow> quote option" where
  "getQuoteIn now smb [] = None"
| "getQuoteIn now smb ((k, c) # rest) =
     (if smb \<in> symbols c then
        (case quotes c smb of
           Some q \<Rightarrow> if \<not> isQuoteStale now (timestamp q) then Some q else getQuoteIn now smb rest
         | None \<Rightarrow> getQuoteIn now smb rest)
      else getQuoteIn now smb rest)"

definition getQuoteForSymbol :: "string \<Rightarrow> WebSocketManager \<Rightarrow> quote option" where
  "getQuoteForSymbol smb m = getQuoteIn (clock m) smb (connections m)"

section \<open>Order placement with retry\<close>

text \<open>
  The broker is reached with \<open>axios.post\<close>. Its answer is an input of the model: a response
  body with its list of market orders, an HTTP error status, or no response at all. The effects
  of a run that the claims talk about are recorded as a list of actions: a fetch of market
  data, a post to the broker with its answer, and a wait.
\<close>

record BrokerOrder =
  orderId :: string
  openPrice :: real
  orderTakeProfit :: real
  orderStopLoss :: "real option"

datatype http_result = Response "BrokerOrder list" | Status nat | NoResponse

record TradeResult =
  marketOrders :: "BrokerOrder list"
  spreadAtOpen :: real

datatype action = QuoteFetch | OrderPost http_result | Sleep nat

record TradeEnv =
  post1 :: http_result
  elapsed1 :: nat
  post2 :: http_result
  elapsed2 :: nat

text \<open>What \<open>placeTrade\<close> makes of the answer to a post: a response without market orders is
  an error.\<close>

definition postOutcome :: "http_result \<Rightarrow> real \<Rightarrow> error + TradeResult" where
  "postOutcome r spread =
     (case r of
        Response orders \<Rightarrow>
          if orders = [] then Inl InvalidApiResponse
          else Inr \<lparr>marketOrders = orders, spreadAtOpen = spread\<rparr>
      | Status n \<Rightarrow> Inl (HttpError n)
      | NoResponse \<Rightarrow> Inl NetworkError)"

definition spreadOf :: "quote \<Rightarrow> InstrumentSpecs \<Rightarrow> real" where
  "spreadOf lastQuote specs = jsDiv (jsSub (ask lastQuote) (bid lastQuote)) (pipValue specs)"

text \<open>\<open>placeTrade\<close>: the volume check, the spread from the manager's current quote, the
  post, and one more post with a new token when the answer is status 401.\<close>

definition placeTrade ::
  "string \<Rightarrow> real \<Rightarrow> string \<Rightarrow> real \<Rightarrow> real option \<Rightarrow> string \<Rightarrow> TradeEnv \<Rightarrow> WebSocketManager
   \<Rightarrow> (error + TradeResult) \<times> WebSocketManager \<times> action list" where
  "placeTrade side amount loginNumber takeProfitPrice stopLossPrice smb env m =
     (let instrumentSpecs = getInstrumentSpecs smb;
          minLotSize = (if type instrumentSpecs = index then fl (1 / 10) else fl (1 / 100))
      in if amount < minLotSize then (Inl VolumeBelowMinimum, m, [])
         else (case getQuoteForSymbol smb m of
                 None \<Rightarrow> (Inl NoMarketQuote, m, [])
               | Some lastQuote \<Rightarrow>
                   (let m1 = m\<lparr>clock := clock m + int (elapsed1 env)\<rparr> in
                    if post1 env = Status 401 then
                      (case getQuoteForSymbol smb m1 of
                         None \<Rightarrow> (Inl NoMarketQuoteAfterTokenRetry, m1, [OrderPost (post1 env)])
                       | Some lastQuote2 \<Rightarrow>
                           (postOutcome (post2 env) (spreadOf lastQuote2 instrumentSpecs),
                            m1\<lparr>clock := clock m1 + int (elapsed2 env)\<rparr>,
                            [OrderPost (post1 env), OrderPost (post2 env)]))
                    else (postOutcome (post1 env) (spreadOf lastQuote instrumentSpecs), m1,
                          [OrderPost (post1 env)]))))"

record TradeAttemptEnv =
  market :: MarketEnv
  trade :: TradeEnv

text \<open>The \<open>try\<close> block of one attempt of \<open>placeTradeWithRetry\<close>: market data, entry price,
  price levels, their validation, the order.\<close>

definition tradeAttempt ::
  "string \<Rightarrow> real \<Rightarrow> string \<Rightarrow> real \<Rightarrow> real option \<Rightarrow> string \<Rightarrow> TradeAttemptEnv
   \<Rightarrow> WebSocketManager \<Rightarrow> (error + TradeResult) \<times> WebSocketManager \<times> action list" where
  "tradeAttempt side amount loginNumber takeProfitPips stopLossPips smb env m =
     (case getMarketDataWithRetry smb (market env) m of
        (Inl e, m1) \<Rightarrow> (Inl e, m1, [QuoteFetch])
      | (Inr marketData, m1) \<Rightarrow>
          if isStale marketData then (Inl MarketPriceTooOld, m1, [QuoteFetch])
          else
            (let entryPrice = (if isBuy side then ask marketData else bid marketData);
                 levels = calculatePriceLevels side entryPrice takeProfitPips stopLossPips
                            (getInstrumentSpecs smb)
             in case validatePriceLevels side entryPrice (fst levels) (snd levels)
                       (getInstrumentSpecs smb) of
                  Invalid pe \<Rightarrow> (Inl (InvalidPriceLevels pe), m1, [QuoteFetch])
                | Valid \<Rightarrow>
                    (case placeTrade side amount loginNumber (fst levels) (snd levels) smb
                            (trade env) m1 of
                       (r, m2, acts) \<Rightarrow> (r, m2, QuoteFetch # acts))))"

text \<open>The \<open>catch\<close> block of an attempt: unless the attempt was the last one, a wait of
  \<open>attempt * 2000\<close> ms.\<close>

definition retryDelay :: "nat \<Rightarrow> nat" where
  "retryDelay attempt = attempt * 2000"

definition tradeAttemptCatch :: "nat \<Rightarrow> nat \<Rightarrow> WebSocketManager \<Rightarrow> WebSocketManager" where
  "tradeAttemptCatch maxRetries attempt m =
     (if attempt < maxRetries then m\<lparr>clock := clock m + int (retryDelay attempt)\<rparr> else m)"

definition catchActions :: "nat \<Rightarrow> nat \<Rightarrow> action list" where
  "catchActions maxRetries attempt =
     (if attempt < maxRetries then [Sleep (retryDelay attempt)] else [])"

definition prependActions ::
  "action list \<Rightarrow> 'r \<times> WebSocketManager \<times> action list \<Rightarrow> 'r \<times> WebSocketManager \<times> action list" where
  "prependActions acts res = (fst res, fst (snd res), acts @ snd (snd res))"

text \<open>The loop of \<open>placeTradeWithRetry\<close> from attempt number \<open>attempt\<close> on. After the loop
  the last error is thrown; without any attempt there is none, and reading its message is a
  type error.\<close>

function placeTradeWithRetryFrom ::
  "string \<Rightarrow> real \<Rightarrow> string \<Rightarrow> real \<Rightarrow> real option \<Rightarrow> string \<Rightarrow> nat
   \<Rightarrow> (nat \<Rightarrow> TradeAttemptEnv) \<Rightarrow> nat \<Rightarrow> error option \<Rightarrow> WebSocketManager
   \<Rightarrow> (error + TradeResult) \<times> WebSocketManager \<times> action list" where
  "placeTradeWithRetryFrom side amount loginNumber takeProfitPips stopLossPips smb maxRetries
       envs attempt lastError m =
     (if attempt \<le> maxRetries then
        (case tradeAttempt side amount loginNumber takeProfitPips stopLossPips smb
                (envs attempt) m of
           (Inr result, m1, acts) \<Rightarrow> (Inr result, m1, acts)
         | (Inl e, m1, acts) \<Rightarrow>
             prependActions (acts @ catchActions maxRetries attempt)
               (placeTradeWithRetryFrom side amount loginNumber takeProfitPips stopLossPips smb
                  maxRetries envs (Suc attempt) (Some e)
                  (tradeAttemptCatch maxRetries attempt m1)))
      else (case lastError of None \<Rightarrow> (Inl TypeError, m, []) | Some e \<Rightarrow> (Inl e, m, [])))"
  by pat_completeness auto
termination
  by (relation "measure (\<lambda>(side, amount, loginNumber, takeProfitPips, stopLossPips, smb,
        maxRetries, envs, attempt, lastError, m). Suc maxRetries - attempt)") auto

declare placeTradeWithRetryFrom.simps [simp del]

definition placeTradeWithRetry ::
  "string \<Rightarrow> real \<Rightarrow> string \<Rightarrow> real \<Rightarrow> real option \<Rightarrow> string \<Rightarrow> nat
   \<Rightarrow> (nat \<Rightarrow> TradeAttemptEnv) \<Rightarrow> WebSocketManager
   \<Rightarrow> (error + TradeResult) \<times> WebSocketManager \<times> action list" where
  "placeTradeWithRetry side amount loginNumber takeProfitPips stopLossPips smb maxRetries envs m =
     placeTradeWithRetryFrom side amount loginNumber takeProfitPips stopLossPips smb maxRetries
       envs 1 None m"

text \<open>The number of orders the broker has placed in a run: the posts answered with a response
  that lists at least one market order.\<close>

fun isPlaced :: "action \<Rightarrow> bool" where
  "isPlaced (OrderPost (Response orders)) = (orders \<noteq> [])"
| "isPlaced a = False"

definition placedOrders :: "action list \<Rightarrow> nat" where
  "placedOrders acts = length (filter isPlaced acts)"

section \<open>Signals, the duplicate store and the queue\<close>

text \<open>
  The webhook payload with the fields the pipeline reads (\<open>id\<close>, \<open>l\<close>, \<open>sy\<close>, \<open>a\<close>, \<open>z\<close>,
  \<open>t\<close>, \<open>s\<close>, \<open>m\<close> of the source). An absent field is \<open>None\<close>; an absent number is 0
  where the source only tests it for truthiness.
\<close>

record AlertData =
  alert_id :: "string option"
  alert_login :: "string option"
  alert_symbol :: "string option"
  alert_action :: "string option"
  alert_size :: real
  alert_takeProfit :: real
  alert_stopLoss :: "real option"
  alert_maxSize :: "real option"

text \<open>A string value is truthy when it is present and not empty; in a template literal an
  absent value prints as \<open>undefined\<close>.\<close>

definition truthyStr :: "string option \<Rightarrow> bool" where
  "truthyStr v = (case v of None \<Rightarrow> False | Some x \<Rightarrow> x \<noteq> [])"

definition strOf :: "string option \<Rightarrow> string" where
  "strOf v = (case v of None \<Rightarrow> ''undefined'' | Some x \<Rightarrow> x)"

text \<open>Decimal printing of a clock reading.\<close>

definition digitChar :: "nat \<Rightarrow> char" where
  "digitChar d = ''0123456789'' ! d"

function showNat :: "nat \<Rightarrow> string" where
  "showNat n = (if n < 10 then [digitChar n] else showNat (n div 10) @ [digitChar (n mod 10)])"
  by pat_completeness auto
termination
  by (relation "measure (\<lambda>n. n)") auto

declare showNat.simps [simp del]

definition showInt :: "int \<Rightarrow> string" where
  "showInt i = (if i < 0 then CHR ''-'' # showNat (nat (- i)) else showNat (nat i))"

text \<open>The two tables of the database that the duplicate check reads.\<close>

record ProcessedRow =
  row_alert_id :: string
  row_account :: string
  processed_at :: int

record HistoricalOrder =
  h_order_id :: string
  h_login :: string
  h_alert_id :: "string option"

record Database =
  processed_webhook_ids :: "ProcessedRow list"
  sfx_historical_orders :: "HistoricalOrder list"

definition processedMatch :: "string option \<Rightarrow> string \<Rightarrow> Database \<Rightarrow> bool" where
  "processedMatch alertId loginNumber d =
     (case alertId of
        None \<Rightarrow> False
      | Some a \<Rightarrow> list_ex (\<lambda>r. row_alert_id r = a \<and> row_account r = loginNumber)
                   (processed_webhook_ids d))"

definition historicalMatch :: "string option \<Rightarrow> string \<Rightarrow> Database \<Rightarrow> bool" where
  "historicalMatch alertId loginNumber d =
     (case alertId of
        None \<Rightarrow> False
      | Some a \<Rightarrow> list_ex (\<lambda>r. h_alert_id r = Some a \<and> h_login r = loginNumber)
                   (sfx_historical_orders d))"

text \<open>\<open>orderExistsWithAlertId\<close>: the table of processed ids first, then the historical
  orders; when the database cannot be read the answer is \<open>false\<close>. An absent alert id is
  bound as NULL, which no row equals.\<close>

definition orderExistsWithAlertId :: "bool \<Rightarrow> string option \<Rightarrow> string \<Rightarrow> Database \<Rightarrow> bool" where
  "orderExistsWithAlertId dbReadable alertId loginNumber d =
     (if \<not> dbReadable then False
      else if processedMatch alertId loginNumber d then True
      else historicalMatch alertId loginNumber d)"

text \<open>The alert id that the execution path stores with an order.\<close>

definition executionAlertId :: "string option \<Rightarrow> string \<Rightarrow> string" where
  "executionAlertId alertId lg = strOf alertId @ ''_'' @ lg"

text \<open>\<open>upsertOrder\<close>, for the columns above: a row with the order id is replaced in place,
  a new one is appended.\<close>

fun upsertOrder :: "HistoricalOrder \<Rightarrow> HistoricalOrder list \<Rightarrow> HistoricalOrder list" where
  "upsertOrder r [] = [r]"
| "upsertOrder r (x # xs) = (if h_order_id x = h_order_id r then r # xs else x # upsertOrder r xs)"

text \<open>The queue. Its set of processed ids keeps insertion order.\<close>

record WebhookJob =
  job_id :: string
  job_data :: AlertData
  job_timestamp :: int
  job_retries :: nat
  accountNumber :: string

record WebhookQueue =
  queue :: "WebhookJob list"
  processing :: bool
  processedIds :: "string list"

definition duplicateWindow :: int where "duplicateWindow = 30000"

definition setAdd :: "'a \<Rightarrow> 'a list \<Rightarrow> 'a list" where
  "setAdd x xs = (if x \<in> set xs then xs else xs @ [x])"

definition alertKey :: "string \<Rightarrow> string \<Rightarrow> string" where
  "alertKey alertId account = alertId @ ''_'' @ account"

text \<open>\<open>add\<close>: the job is appended to the queue.\<close>

definition queueAdd :: "AlertData \<Rightarrow> string \<Rightarrow> int \<Rightarrow> WebhookQueue \<Rightarrow> string \<times> WebhookQueue" where
  "queueAdd data account now q =
     (let jobId = (if truthyStr (alert_id data) then the (alert_id data) else showInt now)
                    @ ''_'' @ account @ ''_'' @ showInt now;
          job = \<lparr>job_id = jobId, job_data = data, job_timestamp = now, job_retries = 0,
                 accountNumber = account\<rparr>
      in (jobId, q\<lparr>queue := queue q @ [job]\<rparr>))"

text \<open>\<open>checkForDuplicate\<close>: the alert key among the processed ids; a job with the same alert
  id for the account queued within the window; a job with the same symbol, action and size
  for the account queued within the window.\<close>

definition checkForDuplicate :: "AlertData \<Rightarrow> string \<Rightarrow> int \<Rightarrow> WebhookQueue \<Rightarrow> bool" where
  "checkForDuplicate data account now q =
     (if truthyStr (alert_id data)
         \<and> alertKey (the (alert_id data)) account \<in> set (processedIds q) then True
      else if list_ex (\<lambda>job. alert_id (job_data job) = alert_id data
                          \<and> accountNumber job = account
                          \<and> now - job_timestamp job < duplicateWindow) (queue q) then True
      else if list_ex (\<lambda>job. accountNumber job = account
                          \<and> alert_symbol (job_data job) = alert_symbol data
                          \<and> alert_action (job_data job) = alert_action data
                          \<and> alert_size (job_data job) = alert_size data
                          \<and> now - job_timestamp job < duplicateWindow) (queue q) then True
      else False)"

text \<open>\<open>cleanupOldProcessedIds\<close>: the 500 rows processed last stay in the table, and the set
  of processed ids is rebuilt from them.\<close>

definition keepRecent :: "ProcessedRow list \<Rightarrow> ProcessedRow list" where
  "keepRecent rows = take 500 (rev (sort_key processed_at rows))"

definition keysOf :: "ProcessedRow list \<Rightarrow> string list" where
  "keysOf rows = remdups (map (\<lambda>r. alertKey (row_alert_id r) (row_account r)) rows)"

definition cleanupOldProcessedIds :: "WebhookQueue \<times> Database \<Rightarrow> WebhookQueue \<times> Database" where
  "cleanupOldProcessedIds qd =
     (let rows = keepRecent (processed_webhook_ids (snd qd))
      in ((fst qd)\<lparr>processedIds := keysOf rows\<rparr>,
          (snd qd)\<lparr>processed_webhook_ids := rows\<rparr>))"

text \<open>How the database answers \<open>storeProcessedId\<close>: it cannot be opened, the insert fails,
  or the insert is carried out.\<close>

datatype db_outcome = DbDown | InsertFails | DbOk

text \<open>\<open>storeProcessedId\<close>: the key goes into the set of processed ids, the row is inserted
  unless a row for the alert id and account exists, and above 1000 ids old entries are
  dropped. Errors are caught and logged.\<close>

definition storeProcessedId ::
  "string option \<Rightarrow> string \<Rightarrow> int \<Rightarrow> db_outcome \<Rightarrow> WebhookQueue \<times> Database
   \<Rightarrow> WebhookQueue \<times> Database" where
  "storeProcessedId alertId account now outcome qd =
     (if outcome = DbDown then qd
      else
        (let q1 = (fst qd)\<lparr>processedIds := setAdd (alertKey (strOf alertId) account)
                                              (processedIds (fst qd))\<rparr>
         in if outcome = InsertFails then (q1, snd qd)
            else
              (let d1 = (case alertId of
                           None \<Rightarrow> snd qd
                         | Some a \<Rightarrow>
                             if processedMatch alertId account (snd qd) then snd qd
                             else (snd qd)\<lparr>processed_webhook_ids :=
                                     processed_webhook_ids (snd qd)
                                       @ [\<lparr>row_alert_id = a, row_account = account,
                                            processed_at = now\<rparr>]\<rparr>)
               in if length (processedIds q1) > 1000 then cleanupOldProcessedIds (q1, d1)
                  else (q1, d1))))"

text \<open>\<open>processJob\<close>, before it emits the job: the alert key of a job with an alert id goes
  into the set of processed ids, which is cut to its last 500 entries above 1000.\<close>

definition processJobMark :: "WebhookJob \<Rightarrow> WebhookQueue \<Rightarrow> WebhookQueue" where
  "processJobMark job q =
     (if truthyStr (alert_id (job_data job)) then
        (let ids = setAdd (alertKey (the (alert_id (job_data job))) (accountNumber job))
                     (processedIds q)
         in q\<lparr>processedIds := (if length ids > 1000 then drop (length ids - 500) ids else ids)\<rparr>)
      else q)"

section \<open>Processing a signal\<close>

datatype webhook_error =
    LoginRequired
  | ValidSymbolRequired
  | UnsupportedSymbol
  | InvalidPipValues
  | BrokerQueryFailed
  | ExclusiveModeRejected
  | SessionDisabled session
  | BuyOnlyRejected
  | SellOnlyRejected
  | AlreadyProcessed
  | OrderPending
  | MaxLimitReached
  | OneOrderPerSide
  | TradeFailed error
  | MissingOrder
  | NoCurrentMarketPrice
  | UpsertFailed
  | MaxSizeUpdateFailed








record AccountSettings =
  trading_mode :: string
  exclusive_mode :: int
  asia_enabled :: int
  london_enabled :: int
  new_york_enabled :: int
  limbo_enabled :: int


text \<open>What the outside world answers during one run of \<open>processWebhookData\<close>: whether the
  duplicate lookup can read the database, the account settings, the broker's answers about
  the open orders (\<open>None\<close> when the query fails), the market and the broker during the
  attempts to trade, whether \<open>upsertOrder\<close> writes the order row, whether
  \<open>updateMaxSize\<close> succeeds after it, and the database's answer to
  \<open>storeProcessedId\<close>.\<close>

record RunEnv =
  dbReadable :: bool
  accountSettings :: AccountSettings
  totalOpenOrders :: "nat option"
  totalOpenVolume :: "real option"
  ordersOnSameSide :: "nat option"
  tradeEnvs :: "nat \<Rightarrow> TradeAttemptEnv"
  upsertOk :: bool
  maxSizeOk :: bool
  storeDb :: db_outcome

text \<open>The server: the queue, the database, the sides with an order in flight per login, the
  market-data manager with the clock, every action towards the market and the broker with
  the alert id and login it was made for, the retries the queue has scheduled and the jobs it
  has given up.\<close>

record Server =
  wq :: WebhookQueue
  db :: Database
  pendingOrders :: "string \<Rightarrow> string set"
  manager :: WebSocketManager
  brokerLog :: "(string option \<times> string \<times> action) list"
  retryTimers :: "WebhookJob list"
  failedJobs :: "WebhookJob list"



definition removePendingOrder :: "string \<Rightarrow> string \<Rightarrow> Server \<Rightarrow> Server" where
  "removePendingOrder lg side sv =
     sv\<lparr>pendingOrders := (pendingOrders sv)(lg := pendingOrders sv lg - {toUpperCase side})\<rparr>"

definition actionOf :: "AlertData \<Rightarrow> string" where
  "actionOf data = (if truthyStr (alert_action data) then the (alert_action data) else ''UNKNOWN'')"




text \<open>What follows a placed order: the current quote, the order row with the alert id
  \<open>alertId_login\<close> written by \<open>upsertOrder\<close>, \<open>updateMaxSize\<close>, the release of the pending
  marker, and the processed id. \<open>upsertOrder\<close> and \<open>updateMaxSize\<close> throw when the database
  refuses their statement; when \<open>updateMaxSize\<close> throws the order row has been written.\<close>

definition recordExecution ::
  "AlertData \<Rightarrow> string \<Rightarrow> string \<Rightarrow> RunEnv \<Rightarrow> TradeResult \<Rightarrow> Server
   \<Rightarrow> (webhook_error + unit) \<times> Server" where
  "recordExecution data lg smb env tradeResult sv =
     (case marketOrders tradeResult of
        [] \<Rightarrow> (Inl MissingOrder, removePendingOrder lg (actionOf data) sv)
      | order # others \<Rightarrow>
          (case getQuoteForSymbol smb (manager sv) of
             None \<Rightarrow> (Inl NoCurrentMarketPrice, removePendingOrder lg (actionOf data) sv)
           | Some lastQuote \<Rightarrow>
               if \<not> upsertOk env
               then (Inl UpsertFailed, removePendingOrder lg (actionOf data) sv)
               else
                 (let row = \<lparr>h_order_id = orderId order, h_login = lg,
                             h_alert_id = Some (executionAlertId (alert_id data) lg)\<rparr>;
                      sv1 = sv\<lparr>db := (db sv)\<lparr>sfx_historical_orders :=
                                      upsertOrder row (sfx_historical_orders (db sv))\<rparr>\<rparr>
                  in if \<not> maxSizeOk env
                     then (Inl MaxSizeUpdateFailed, removePendingOrder lg (actionOf data) sv1)
                     else
                       (let sv2 = removePendingOrder lg (actionOf data) sv1;
                            qd = storeProcessedId (alert_id data) lg (clock (manager sv2))
                                   (storeDb env) (wq sv2, db sv2)
                        in (Inr (), sv2\<lparr>wq := fst qd, db := snd qd\<rparr>)))))"



section \<open>The webhook endpoint and the queue worker\<close>

datatype response = AlreadyProcessedResponse | DuplicateIgnored | QueuedResponse string

text \<open>The handler of \<open>POST /webhook\<close>. The default account number comes from the
  configuration, the alert id of a payload without one is made up from the clock and a
  random number, and the time is the clock of the server.\<close>

definition webhookEndpoint ::
  "string \<Rightarrow> string \<Rightarrow> bool \<Rightarrow> AlertData \<Rightarrow> Server \<Rightarrow> response \<times> Server" where
  "webhookEndpoint defaultAccount madeUpId readable alertData sv =
     (let lg = (if truthyStr (alert_login alertData) then the (alert_login alertData)
                else defaultAccount);
          alertId = (if truthyStr (alert_id alertData) then the (alert_id alertData)
                     else madeUpId)
      in if orderExistsWithAlertId readable (Some alertId) lg (db sv)
         then (AlreadyProcessedResponse, sv)
         else if checkForDuplicate alertData lg (clock (manager sv)) (wq sv)
         then (DuplicateIgnored, sv)
         else (case queueAdd alertData lg (clock (manager sv)) (wq sv) of
                 (jobId, q) \<Rightarrow> (QueuedResponse jobId, sv\<lparr>wq := q\<rparr>)))"


section \<open>Runs of the server\<close>









section \<open>Sample inputs\<close>

text \<open>A manager without connections at 22:13:20 UTC on 14 November 2023, and a feed that
  answers a connection attempt after 300 ms and delivers, 200 ms later, a EURUSD quote
  observed 100 ms before its delivery.\<close>

definition sampleManager :: WebSocketManager where
  "sampleManager = \<lparr>connections = [], totalReconnects = 0, clock = 1700000000000\<rparr>"

definition sampleFeedQuote :: FeedQuote where
  "sampleFeedQuote =
     \<lparr>fq_symbol = ''EURUSD'', fq_bid = fl (10999 / 10000), fq_ask = fl (11 / 10),
      fq_time = Millis 1700000000400\<rparr>"

definition sampleAttempt :: AttemptEnv where
  "sampleAttempt = \<lparr>connectOk = True, connectElapsed = 300, arrival = Some (200, sampleFeedQuote)\<rparr>"

definition sampleMarket :: MarketEnv where
  "sampleMarket = \<lparr>firstCall = (\<lambda>k. sampleAttempt), secondCall = (\<lambda>k. sampleAttempt)\<rparr>"

definition sampleQuote :: quote where
  "sampleQuote = \<lparr>bid = fl (10999 / 10000), ask = fl (11 / 10), timestamp = Millis 1700000000400\<rparr>"

text \<open>A feed whose quote was observed 20 s before the clock reading of \<open>sampleManager\<close>.\<close>

definition staleAttempt :: AttemptEnv where
  "staleAttempt =
     \<lparr>connectOk = True, connectElapsed = 300,
      arrival = Some (200, sampleFeedQuote\<lparr>fq_time := Millis 1699999980000\<rparr>)\<rparr>"

text \<open>Feeds whose quote carries no timestamp, and a timestamp that is not a number.\<close>

definition undatedAttempt :: AttemptEnv where
  "undatedAttempt =
     \<lparr>connectOk = True, connectElapsed = 300,
      arrival = Some (200, sampleFeedQuote\<lparr>fq_time := Undefined\<rparr>)\<rparr>"

definition undatedMarket :: MarketEnv where
  "undatedMarket = \<lparr>firstCall = (\<lambda>k. undatedAttempt), secondCall = (\<lambda>k. undatedAttempt)\<rparr>"

definition unreadableAttempt :: AttemptEnv where
  "unreadableAttempt =
     \<lparr>connectOk = True, connectElapsed = 300,
      arrival = Some (200, sampleFeedQuote\<lparr>fq_time := NotANumber\<rparr>)\<rparr>"

definition unreadableMarket :: MarketEnv where
  "unreadableMarket =
     \<lparr>firstCall = (\<lambda>k. unreadableAttempt), secondCall = (\<lambda>k. unreadableAttempt)\<rparr>"

text \<open>A manager that holds a fresh quote with the ask below the bid on a healthy connection,
  and a feed that delivers such a quote again after a reconnection.\<close>

definition crossedQuote :: quote where
  "crossedQuote = \<lparr>bid = fl (11 / 10), ask = fl (10999 / 10000), timestamp = Millis 1699999999900\<rparr>"

definition crossedManager :: WebSocketManager where
  "crossedManager =
     \<lparr>connections =
        [(''EURUSD'', \<lparr>wsOpen = True, symbols = {''EURUSD''}, lastActivity = 1699999999900,
                       quotes = [''EURUSD'' \<mapsto> crossedQuote], reconnectCount = 0\<rparr>)],
      totalReconnects = 0, clock = 1700000000000\<rparr>"

definition crossedAttempt :: AttemptEnv where
  "crossedAttempt =
     \<lparr>connectOk = True, connectElapsed = 300,
      arrival = Some (200, \<lparr>fq_symbol = ''EURUSD'', fq_bid = fl (11 / 10),
                            fq_ask = fl (10999 / 10000), fq_time = Millis 1700000000400\<rparr>)\<rparr>"

definition crossedMarket :: MarketEnv where
  "crossedMarket = \<lparr>firstCall = (\<lambda>k. crossedAttempt), secondCall = (\<lambda>k. crossedAttempt)\<rparr>"

text \<open>The broker's answers: an order placed, and no answer at all.\<close>

definition sampleOrder :: BrokerOrder where
  "sampleOrder =
     \<lparr>orderId = ''1001'', openPrice = fl (11 / 10), orderTakeProfit = fl (1105 / 1000),
      orderStopLoss = None\<rparr>"

definition placedTrade :: TradeEnv where
  "placedTrade = \<lparr>post1 = Response [sampleOrder], elapsed1 = 150, post2 = NoResponse, elapsed2 = 0\<rparr>"

definition unreachableBroker :: TradeEnv where
  "unreachableBroker = \<lparr>post1 = NoResponse, elapsed1 = 150, post2 = NoResponse, elapsed2 = 0\<rparr>"

text \<open>A feed that delivers a quote observed 15.4 s after the clock reading of
  \<open>sampleManager\<close>.\<close>

definition lateAttempt :: AttemptEnv where
  "lateAttempt =
     \<lparr>connectOk = True, connectElapsed = 300,
      arrival = Some (200, sampleFeedQuote\<lparr>fq_time := Millis 1700000015400\<rparr>)\<rparr>"

text \<open>Three attempts: a feed of stale quotes during the first and the second, and a fresh
  quote and an order placed in the third.\<close>

definition staleMarket :: MarketEnv where
  "staleMarket = \<lparr>firstCall = (\<lambda>j. staleAttempt), secondCall = (\<lambda>j. staleAttempt)\<rparr>"

definition lateMarket :: MarketEnv where
  "lateMarket = \<lparr>firstCall = (\<lambda>j. lateAttempt), secondCall = (\<lambda>j. lateAttempt)\<rparr>"

definition retryScenario :: "nat \<Rightarrow> TradeAttemptEnv" where
  "retryScenario k =
     (if k = 1 \<or> k = 2 then \<lparr>market = staleMarket, trade = placedTrade\<rparr>
      else \<lparr>market = lateMarket, trade = placedTrade\<rparr>)"

text \<open>Every attempt with a fresh valid quote and a broker that would place the order.\<close>

definition calmScenario :: "nat \<Rightarrow> TradeAttemptEnv" where
  "calmScenario k = \<lparr>market = sampleMarket, trade = placedTrade\<rparr>"

text \<open>The number of fetches of market data in a run, one per attempt.\<close>

definition fetches :: "action list \<Rightarrow> nat" where
  "fetches acts = length (filter (\<lambda>a. a = QuoteFetch) acts)"

text \<open>Manager states of the sample runs: no connection; the connection that holds
  \<open>sampleQuote\<close>; the connection that holds the late quote.\<close>

definition emptyState :: "int \<Rightarrow> WebSocketManager" where
  "emptyState t = \<lparr>connections = [], totalReconnects = 0, clock = t\<rparr>"

definition calmState :: "int \<Rightarrow> WebSocketManager" where
  "calmState t =
     \<lparr>connections =
         [(''EURUSD'', \<lparr>wsOpen = True, symbols = {''EURUSD''}, lastActivity = 1700000000500,
                        quotes = [''EURUSD'' \<mapsto> sampleQuote], reconnectCount = 0\<rparr>)],
       totalReconnects = 0, clock = t\<rparr>"

definition lateState :: "int \<Rightarrow> WebSocketManager" where
  "lateState t =
     \<lparr>connections =
         [(''EURUSD'', \<lparr>wsOpen = True, symbols = {''EURUSD''}, lastActivity = 1700000015500,
                        quotes = [''EURUSD'' \<mapsto> sampleQuote\<lparr>timestamp := Millis 1700000015400\<rparr>],
                        reconnectCount = 0\<rparr>)],
       totalReconnects = 0, clock = t\<rparr>"

section \<open>Sample signals\<close>

text \<open>A signal to buy 0.01 lots of EURUSD with a take profit of 50 pips for the account
  12345, an account that trades in every session, and a broker that reports no open
  order.\<close>

definition sampleAlert :: AlertData where
  "sampleAlert =
     \<lparr>alert_id = Some ''A1'', alert_login = Some ''12345'', alert_symbol = Some ''EURUSD'',
      alert_action = Some ''BUY'', alert_size = fl (1 / 100), alert_takeProfit = 50,
      alert_stopLoss = None, alert_maxSize = None\<rparr>"

definition openSettings :: AccountSettings where
  "openSettings =
     \<lparr>trading_mode = ''NORMAL'', exclusive_mode = 0, asia_enabled = 1, london_enabled = 1,
      new_york_enabled = 1, limbo_enabled = 1\<rparr>"

definition sampleEnv :: "(nat \<Rightarrow> TradeAttemptEnv) \<Rightarrow> RunEnv" where
  "sampleEnv scenario =
     \<lparr>dbReadable = True, accountSettings = openSettings, totalOpenOrders = Some 0,
      totalOpenVolume = Some 0, ordersOnSameSide = Some 0, tradeEnvs = scenario,
      upsertOk = True, maxSizeOk = True, storeDb = DbOk\<rparr>"

definition idleServer :: "WebSocketManager \<Rightarrow> Server" where
  "idleServer m =
     \<lparr>wq = \<lparr>queue = [], processing = False, processedIds = []\<rparr>,
      db = \<lparr>processed_webhook_ids = [], sfx_historical_orders = []\<rparr>,
      pendingOrders = (\<lambda>lg. {}), manager = m, brokerLog = [], retryTimers = [],
      failedJobs = []\<rparr>"
















section \<open>The per-account mutex\<close>

text \<open>\<open>processWebhookData\<close> is an asynchronous function: several calls can be under way at
  once, each suspended at an \<open>await\<close>. The calls are numbered. server.ts:52 and 73-78 keep
  one \<open>Mutex\<close> of the library \<open>async-mutex\<close> per account number, created on first use. The
  library is a dependency and its code is not in the repository; the record follows its
  documented behaviour: a mutex is free or locked, \<open>acquire\<close> on a free mutex locks it for the
  caller, \<open>acquire\<close> on a locked mutex queues the caller, and \<open>release\<close> hands the mutex to the
  caller that has waited longest, or frees it when nobody waits.\<close>

type_synonym task = nat

record Mutex =
  locked :: bool
  waiters :: "task list"


text \<open>Where a call of \<open>processWebhookData\<close> stands: not made yet, waiting for
  \<open>mutex.acquire()\<close> to resolve, holding the mutex with the continuation not yet run, inside
  the inner \<open>try\<close> block, or over with its result.\<close>

datatype phase =
    NotStarted
  | Queued
  | Granted
  | InCriticalSection
  | Finished "webhook_error + unit"

record Tasks =
  loginMutexes :: "string \<rightharpoonup> Mutex"
  phaseOf :: "task \<Rightarrow> phase"









definition holding :: "Tasks \<Rightarrow> task \<Rightarrow> bool" where
  "holding w t = (phaseOf w t = Granted \<or> phaseOf w t = InCriticalSection)"









section \<open>Properties of the trading sessions\<close>

lemma getUTCHours_range: "0 \<le> getUTCHours t \<and> getUTCHours t < 24"
  by (simp add: getUTCHours_def)

text \<open>
  Claim C8, as stated: every time is assigned exactly one of the four sessions by the live
  gate, in agreement with the statistics code. It fails at 20:13:20 UTC on 14 November
  2023: no test of the gate matches hour 20, while the statistics handler puts this
  instant in the new york session.
\<close>

theorem C8_gate_gap_counterexample:
  "getCurrentTradingSession 1699992800000 = None
   \<and> getTradingSessionForTimestamp (Some 1699992800000) = InSession new_york_session"
  by (simp add: getCurrentTradingSession_def getTradingSessionForTimestamp_def
      getUTCHours_def msPerHour_def validDate_def)

text \<open>
  Claim C8, amended. The live gate assigns at most one session to a time, by the first
  matching test: london for the UTC hours 6 to 13, new york for 14 to 19, limbo for 2 to 5,
  asia for 22, 23, 0 and 1, and no session for the hours 20 and 21. The statistics handler
  assigns exactly one session to every valid date: asia for the UTC hours 0 to 7, london
  for 8 to 12, new york for 13 to 20, limbo for 21 to 23; an invalid date gets
  \<open>unknown_session\<close>. The two assign the same session exactly on the UTC hours 0, 1,
  8 to 12 and 14 to 19.
\<close>

theorem C8_sessions_amended:
  "getCurrentTradingSession t =
     (if 6 \<le> getUTCHours t \<and> getUTCHours t \<le> 13 then Some london_session
      else if 14 \<le> getUTCHours t \<and> getUTCHours t \<le> 19 then Some new_york_session
      else if 2 \<le> getUTCHours t \<and> getUTCHours t \<le> 5 then Some limbo_session
      else if getUTCHours t = 20 \<or> getUTCHours t = 21 then None
      else Some asia_session)
   \<and> getTradingSessionForTimestamp None = unknown_session
   \<and> (\<not> validDate t \<longrightarrow> getTradingSessionForTimestamp (Some t) = unknown_session)
   \<and> (validDate t \<longrightarrow>
        getTradingSessionForTimestamp (Some t) =
          InSession (if getUTCHours t \<le> 7 then asia_session
                     else if getUTCHours t \<le> 12 then london_session
                     else if getUTCHours t \<le> 20 then new_york_session
                     else limbo_session)
        \<and> ((\<exists>s. getCurrentTradingSession t = Some s
                  \<and> getTradingSessionForTimestamp (Some t) = InSession s)
             = (getUTCHours t \<le> 1 \<or> (8 \<le> getUTCHours t \<and> getUTCHours t \<le> 12)
                \<or> (14 \<le> getUTCHours t \<and> getUTCHours t \<le> 19))))"
proof -
  define h where "h = getUTCHours t"
  have r: "0 \<le> h" "h < 24"
    using getUTCHours_range [of t] by (simp_all add: h_def)
  have g: "getCurrentTradingSession t =
           (if 6 \<le> h \<and> h \<le> 13 then Some london_session
            else if 14 \<le> h \<and> h \<le> 19 then Some new_york_session
            else if 2 \<le> h \<and> h \<le> 5 then Some limbo_session
            else if h = 20 \<or> h = 21 then None
            else Some asia_session)"
    using r by (auto simp add: getCurrentTradingSession_def Let_def h_def [symmetric])
  have s: "getTradingSessionForTimestamp (Some t) =
           InSession (if h \<le> 7 then asia_session
                      else if h \<le> 12 then london_session
                      else if h \<le> 20 then new_york_session
                      else limbo_session)"
    if "validDate t"
    using that r by (auto simp add: getTradingSessionForTimestamp_def Let_def h_def [symmetric])
  have a: "(\<exists>s. getCurrentTradingSession t = Some s
                  \<and> getTradingSessionForTimestamp (Some t) = InSession s)
           = (h \<le> 1 \<or> (8 \<le> h \<and> h \<le> 12) \<or> (14 \<le> h \<and> h \<le> 19))"
    if "validDate t"
    unfolding g s [OF that] using r by (auto split: if_splits)
  show ?thesis
  proof (intro conjI impI)
    show "getCurrentTradingSession t =
     (if 6 \<le> getUTCHours t \<and> getUTCHours t \<le> 13 then Some london_session
      else if 14 \<le> getUTCHours t \<and> getUTCHours t \<le> 19 then Some new_york_session
      else if 2 \<le> getUTCHours t \<and> getUTCHours t \<le> 5 then Some limbo_session
      else if getUTCHours t = 20 \<or> getUTCHours t = 21 then None
      else Some asia_session)"
      using g unfolding h_def .
  next
    show "getTradingSessionForTimestamp None = unknown_session"
      by (simp add: getTradingSessionForTimestamp_def)
  next
    assume "\<not> validDate t"
    then show "getTradingSessionForTimestamp (Some t) = unknown_session"
      by (simp add: getTradingSessionForTimestamp_def)
  next
    assume c: "validDate t"
    show "getTradingSessionForTimestamp (Some t) =
          InSession (if getUTCHours t \<le> 7 then asia_session
                     else if getUTCHours t \<le> 12 then london_session
                     else if getUTCHours t \<le> 20 then new_york_session
                     else limbo_session)"
      using s [OF c] unfolding h_def .
  next
    assume c: "validDate t"
    show "(\<exists>s. getCurrentTradingSession t = Some s
                  \<and> getTradingSessionForTimestamp (Some t) = InSession s)
             = (getUTCHours t \<le> 1 \<or> (8 \<le> getUTCHours t \<and> getUTCHours t \<le> 12)
                \<or> (14 \<le> getUTCHours t \<and> getUTCHours t \<le> 19))"
      using a [OF c] unfolding h_def .
  qed
qed

theorem C8_sessions_amended_witness:
  "validDate 1699956800000
   \<and> getUTCHours 1699956800000 = 10
   \<and> getCurrentTradingSession 1699956800000 = Some london_session
   \<and> getTradingSessionForTimestamp (Some 1699956800000) = InSession london_session
   \<and> \<not> validDate 8640000000000001
   \<and> getTradingSessionForTimestamp (Some 8640000000000001) = unknown_session"
proof -
  have h: "getUTCHours 1699956800000 = 10"
    by (simp add: getUTCHours_def msPerHour_def)
  have v: "validDate 1699956800000" "\<not> validDate 8640000000000001"
    by (simp_all add: validDate_def)
  have "getCurrentTradingSession 1699956800000 = Some london_session"
    using C8_sessions_amended [of 1699956800000] unfolding h by simp
  moreover have "getTradingSessionForTimestamp (Some 1699956800000) = InSession london_session"
    using C8_sessions_amended [of 1699956800000] v unfolding h by simp
  moreover have "getTradingSessionForTimestamp (Some 8640000000000001) = unknown_session"
    using C8_sessions_amended [of 8640000000000001] v by simp
  ultimately show ?thesis
    using h v by simp
qed

section \<open>Properties of the price levels\<close>

lemmas fl_eval = fl_def flAbs_def ulp_def binaryExponent_def pow2_def roundHalfEven_def Let_def
  log2up.simps log2down.simps jsAdd_def jsSub_def jsMul_def jsDiv_def mathRound_def
  toFixedNumber_def

lemmas str_eval = toUpperCase_def toUpperChar_def removeExchangePrefix_def isUpperAZ_def
  upperLetters_def lowerLetters_def forexPairs_def indices_def

lemmas price_eval = calculatePriceLevels_def validatePriceLevels_def isBuy_def truthy_def
  formatPrice_def

lemma getInstrumentSpecs_EURUSD:
  "getInstrumentSpecs ''EURUSD'' =
     \<lparr>type = forex, pipValue = fl (1 / 10000), minDistance = fl (1 / 1000), decimals = 5,
      minTPDistance = 10, minSLDistance = 10\<rparr>"
  by (simp add: getInstrumentSpecs_def str_eval)

lemma fl_pip: "fl (1 / 10000) = 7378697629483821 / 73786976294838206464"
  by (simp add: fl_eval)

lemma fl_entry: "fl (11 / 10) = 2476979795053773 / 2251799813685248"
  by (simp add: fl_eval)

lemma levels_tp5:
  "calculatePriceLevels ''BUY'' (fl (11 / 10)) 5 None (getInstrumentSpecs ''EURUSD'')
     = (fl (11005 / 10000), None)"
  unfolding getInstrumentSpecs_EURUSD by (simp add: price_eval fl_eval)

lemma validate_tp5:
  "validatePriceLevels ''BUY'' (fl (11 / 10)) (fl (11005 / 10000)) None
     (getInstrumentSpecs ''EURUSD'')
   = Invalid (TPDistanceBelowMinimum (1407374883553125 / 281474976710656) 10)"
  unfolding getInstrumentSpecs_EURUSD by (simp add: price_eval fl_eval)

lemma levels_tp50:
  "calculatePriceLevels ''BUY'' (fl (11 / 10)) 50 None (getInstrumentSpecs ''EURUSD'')
     = (fl (1105 / 1000), None)"
  unfolding getInstrumentSpecs_EURUSD by (simp add: price_eval fl_eval)

lemma validate_tp50:
  "validatePriceLevels ''BUY'' (fl (11 / 10)) (fl (1105 / 1000)) None
     (getInstrumentSpecs ''EURUSD'')
   = Valid"
  unfolding getInstrumentSpecs_EURUSD by (simp add: price_eval fl_eval)

text \<open>
  Claim C6. EURUSD has pip value 0.0001 and a minimum distance of 10 pips. For a buy with
  entry price 1.10000, a take-profit distance of 5 pips gives a target whose distance
  (4.99999999999991 pips in double arithmetic) is rejected as below the minimum of 10, and
  a take-profit distance of 50 pips is accepted with the target price 1.10500, the double
  that this decimal denotes.
\<close>

theorem C6_eurusd_price_validation:
  "pipValue (getInstrumentSpecs ''EURUSD'') = fl (1 / 10000)
   \<and> minTPDistance (getInstrumentSpecs ''EURUSD'') = 10
   \<and> calculatePriceLevels ''BUY'' (fl (11 / 10)) 5 None (getInstrumentSpecs ''EURUSD'')
       = (fl (11005 / 10000), None)
   \<and> validatePriceLevels ''BUY'' (fl (11 / 10)) (fl (11005 / 10000)) None
         (getInstrumentSpecs ''EURUSD'')
       = Invalid (TPDistanceBelowMinimum (1407374883553125 / 281474976710656) 10)
   \<and> calculatePriceLevels ''BUY'' (fl (11 / 10)) 50 None (getInstrumentSpecs ''EURUSD'')
       = (fl (1105 / 1000), None)
   \<and> validatePriceLevels ''BUY'' (fl (11 / 10)) (fl (1105 / 1000)) None
         (getInstrumentSpecs ''EURUSD'')
       = Valid"
  using levels_tp5 validate_tp5 levels_tp50 validate_tp50
  by (simp add: getInstrumentSpecs_EURUSD)

section \<open>Properties of the market data\<close>

lemma awaitQuoteUpdate_fresh:
  assumes "awaitQuoteUpdate smb env c now = (Inr q, c1, now1)"
  shows "\<not> isQuoteStale now1 (timestamp q)"
  using assms
  by (auto simp add: awaitQuoteUpdate_def split: option.splits prod.splits if_splits)

lemma waitForQuote_fresh:
  assumes "waitForQuote smb env c now = (Inr q, c1, now1)"
  shows "\<not> isQuoteStale now1 (timestamp q)"
  using assms awaitQuoteUpdate_fresh [of smb env c now q c1 now1]
  by (auto simp add: waitForQuote_def split: if_splits)

lemma orderAttemptBody_fresh:
  assumes "orderAttemptBody smb env m = (Inr md, m1)"
  shows "\<not> isQuoteStale (clock m1) (timestamp md) \<and> \<not> isStale md"
proof -
  define found where "found = map_of (connections m) smb"
  define needNew where
    "needNew = (case found of None \<Rightarrow> True | Some c \<Rightarrow> \<not> isConnectionHealthy (clock m) c)"
  define ma where
    "ma = (if needNew \<and> found \<noteq> None then m\<lparr>connections := mapDelete smb (connections m)\<rparr> else m)"
  define now1 where
    "now1 = (if needNew then clock ma + int (connectElapsed env) else clock ma)"
  define c0 where "c0 = (if needNew then newConnection now1 smb else the found)"
  define c1 where "c1 = (if smb \<notin> symbols c0 then subscribeToSymbol c0 smb else c0)"
  define mb where "mb = ma\<lparr>connections := mapSet smb c1 (connections ma), clock := now1\<rparr>"
  define A where "A = (needNew \<and> \<not> connectOk env)"
  define B where
    "B = (quotes c1 smb \<noteq> None \<and> \<not> isQuoteStale now1 (timestamp (the (quotes c1 smb))))"
  have body: "orderAttemptBody smb env m =
     (if A
      then (Inl ConnectionFailed, ma\<lparr>clock := clock ma + int (connectElapsed env)\<rparr>)
      else if B
        then (Inr (toMarketData smb (the (quotes c1 smb))), mb)
        else (case waitForQuote smb env c1 now1 of
                (Inl e, c2, now2) \<Rightarrow>
                  (Inl e, mb\<lparr>connections := mapSet smb c2 (connections mb), clock := now2\<rparr>)
              | (Inr q, c2, now2) \<Rightarrow>
                  (if isQuoteStale now2 (timestamp q) then Inl ReceivedStaleQuote
                   else Inr (toMarketData smb q),
                   mb\<lparr>connections := mapSet smb c2 (connections mb), clock := now2\<rparr>)))"
    unfolding orderAttemptBody_def Let_def found_def needNew_def ma_def now1_def c0_def c1_def
      mb_def A_def B_def by simp
  show ?thesis
  proof (cases A)
    case True
    then show ?thesis using assms body by simp
  next
    case False
    note nf = False
    show ?thesis
    proof (cases B)
      case True
      then have "md = toMarketData smb (the (quotes c1 smb))" "m1 = mb"
        using assms body nf by simp_all
      then show ?thesis
        using True by (simp add: toMarketData_def mb_def B_def)
    next
      case False
      obtain r c2 now2 where w: "waitForQuote smb env c1 now1 = (r, c2, now2)"
        by (cases "waitForQuote smb env c1 now1") auto
      show ?thesis
      proof (cases r)
        case (Inl e)
        then show ?thesis using assms body nf False w by simp
      next
        case (Inr q)
        then have "\<not> isQuoteStale now2 (timestamp q)" "md = toMarketData smb q"
          "m1 = mb\<lparr>connections := mapSet smb c2 (connections mb), clock := now2\<rparr>"
          using assms body nf False w by (simp_all split: if_splits)
        then show ?thesis
          by (simp add: toMarketData_def)
      qed
    qed
  qed
qed

lemma connectForOrderFrom_fresh:
  "connectForOrderFrom smb maxRetries envs attempt lastError m = (Inr md, m1)
   \<Longrightarrow> \<not> isQuoteStale (clock m1) (timestamp md) \<and> \<not> isStale md"
proof (induction smb maxRetries envs attempt lastError m rule: connectForOrderFrom.induct)
  case (1 smb maxRetries envs attempt lastError m)
  show ?case
  proof (cases "attempt \<le> maxRetries")
    case False
    then show ?thesis
      using "1.prems" by (simp add: connectForOrderFrom.simps)
  next
    case True
    obtain r ma where b: "orderAttemptBody smb (envs attempt) m = (r, ma)"
      by (cases "orderAttemptBody smb (envs attempt) m") auto
    show ?thesis
    proof (cases r)
      case (Inr md')
      then have "md' = md" "ma = m1"
        using "1.prems" True b by (simp_all add: connectForOrderFrom.simps)
      then show ?thesis
        using orderAttemptBody_fresh [of smb "envs attempt" m md m1] b Inr by simp
    next
      case (Inl e)
      show ?thesis
        using "1.IH" [OF True b [symmetric] Inl] "1.prems" True b Inl
        by (simp add: connectForOrderFrom.simps [of smb maxRetries envs attempt])
    qed
  qed
qed


lemma connectForOrder_fresh:
  "connectForOrder smb maxRetries envs m = (Inr md, m1)
   \<Longrightarrow> \<not> isQuoteStale (clock m1) (timestamp md) \<and> \<not> isStale md"
  unfolding connectForOrder_def by (rule connectForOrderFrom_fresh)

lemma forceReconnectForSymbol_fresh:
  "forceReconnectForSymbol smb envs m = (Inr md, m1)
   \<Longrightarrow> \<not> isQuoteStale (clock m1) (timestamp md) \<and> \<not> isStale md"
  unfolding forceReconnectForSymbol_def by (rule connectForOrder_fresh)

lemma getMarketDataWithRetry_fresh:
  assumes "getMarketDataWithRetry smb env m = (Inr md, m1)"
  shows "\<not> isQuoteStale (clock m1) (timestamp md) \<and> \<not> isStale md"
proof -
  obtain r ma where c: "connectForOrder smb MAX_ORDER_RETRIES (firstCall env) m = (r, ma)"
    by (cases "connectForOrder smb MAX_ORDER_RETRIES (firstCall env) m") auto
  show ?thesis
  proof (cases r)
    case (Inl e)
    then show ?thesis using assms c by (simp add: getMarketDataWithRetry_def)
  next
    case (Inr md')
    show ?thesis
    proof (cases "\<not> isMarketDataValid md' \<or> isStale md' \<or> isQuoteStale (clock ma) (timestamp md')")
      case True
      then have "forceReconnectForSymbol smb (secondCall env) ma = (Inr md, m1)"
        using assms c Inr by (auto simp add: getMarketDataWithRetry_def split: if_splits)
      then show ?thesis by (rule forceReconnectForSymbol_fresh)
    next
      case False
      then have "md' = md" "ma = m1"
        using assms c Inr by (auto simp add: getMarketDataWithRetry_def)
      then show ?thesis using False by simp
    qed
  qed
qed

text \<open>A feed whose quotes are all older than the threshold\<close>

lemma map_of_mapDelete: "map_of (mapDelete k ps) k = None"
  by (induction ps) (auto simp add: mapDelete_def)

lemma orderAttemptBody_stale_feed:
  assumes "map_of (connections m) smb = None"
    and "\<forall>dt fq. arrival env = Some (dt, fq)
           \<longrightarrow> (\<exists>t. normalizeTimestamp (fq_time fq) = Millis t \<and> t < t0 - PRICE_STALE_THRESHOLD)"
    and "t0 \<le> clock m"
  shows "\<exists>e m1. orderAttemptBody smb env m = (Inl e, m1) \<and> t0 \<le> clock m1"
proof (cases "connectOk env")
  case False
  then show ?thesis
    using assms(1,3) by (simp add: orderAttemptBody_def Let_def)
next
  case True
  let ?now1 = "clock m + int (connectElapsed env)"
  let ?c1 = "newConnection ?now1 smb"
  have t: "t0 \<le> ?now1" using assms(3) by simp
  have s: "symbols ?c1 = {smb}" "quotes ?c1 smb = None" "isConnectionHealthy ?now1 ?c1"
    by (simp_all add: newConnection_def isConnectionHealthy_def CONNECTION_TIMEOUT_def)
  have w: "\<exists>e c2 now2. waitForQuote smb env ?c1 ?now1 = (Inl e, c2, now2) \<and> t0 \<le> now2"
  proof (cases "arrival env")
    case None
    then show ?thesis
      using t s by (simp add: waitForQuote_def awaitQuoteUpdate_def QUOTE_TIMEOUT_def)
  next
    case (Some a)
    obtain dt fq where a: "a = (dt, fq)" by (cases a) auto
    obtain ts where old: "normalizeTimestamp (fq_time fq) = Millis ts"
      "ts < t0 - PRICE_STALE_THRESHOLD"
      using assms(2) Some a by blast
    then have "isQuoteStale (?now1 + int dt) (normalizeTimestamp (fq_time fq))"
      using t by (simp add: isQuoteStale_def)
    then show ?thesis
      using t s Some a
      by (simp add: waitForQuote_def awaitQuoteUpdate_def QUOTE_TIMEOUT_def handleMessage_def
          Let_def)
  qed
  then obtain e c2 now2 where "waitForQuote smb env ?c1 ?now1 = (Inl e, c2, now2)" "t0 \<le> now2"
    by blast
  then show ?thesis
    using True assms(1) s by (simp add: orderAttemptBody_def Let_def)
qed

lemma connectForOrderFrom_stale_feed:
  assumes "map_of (connections m) smb = None"
    and "\<forall>k dt fq. arrival (envs k) = Some (dt, fq)
           \<longrightarrow> (\<exists>t. normalizeTimestamp (fq_time fq) = Millis t \<and> t < t0 - PRICE_STALE_THRESHOLD)"
    and "t0 \<le> clock m"
  shows "\<exists>e m1. connectForOrderFrom smb maxRetries envs attempt lastError m = (Inl e, m1)"
  using assms
proof (induction smb maxRetries envs attempt lastError m rule: connectForOrderFrom.induct)
  case (1 smb maxRetries envs attempt lastError m)
  show ?case
  proof (cases "attempt \<le> maxRetries")
    case False
    then show ?thesis
      by (simp add: connectForOrderFrom.simps)
  next
    case True
    have "\<forall>dt fq. arrival (envs attempt) = Some (dt, fq)
           \<longrightarrow> (\<exists>t. normalizeTimestamp (fq_time fq) = Millis t \<and> t < t0 - PRICE_STALE_THRESHOLD)"
      using "1.prems"(2) by blast
    then obtain e ma where b: "orderAttemptBody smb (envs attempt) m = (Inl e, ma)" "t0 \<le> clock ma"
      using orderAttemptBody_stale_feed [of m smb "envs attempt" t0] "1.prems"(1,3) by blast
    let ?mc = "orderAttemptCatch smb maxRetries attempt ma"
    have n: "map_of (connections ?mc) smb = None"
      by (simp add: orderAttemptCatch_def map_of_mapDelete)
    have c: "t0 \<le> clock ?mc"
      using b(2) by (simp add: orderAttemptCatch_def CONNECTION_RETRY_DELAY_BASE_def)
    obtain e' m1 where
      "connectForOrderFrom smb maxRetries envs (Suc attempt) (Some e) ?mc = (Inl e', m1)"
      using "1.IH" [OF True b(1) [symmetric] refl n "1.prems"(2) c] by blast
    then show ?thesis
      using True b(1)
      by (simp add: connectForOrderFrom.simps [of smb maxRetries envs attempt])
  qed
qed

text \<open>A feed whose quote has no timestamp that is a number\<close>

lemma orderAttemptBody_undated:
  assumes "map_of (connections m) smb = None" "connectOk env"
    "arrival env = Some (dt, fq)" "int dt < QUOTE_TIMEOUT" "fq_symbol fq = smb"
    "fq_time fq = NotANumber \<or> fq_time fq = Undefined"
  shows "fst (orderAttemptBody smb env m)
         = Inr \<lparr>bid = fq_bid fq, ask = fq_ask fq, timestamp = fq_time fq, symbol = smb,
                isStale = False\<rparr>"
  using assms
  by (auto simp add: orderAttemptBody_def Let_def newConnection_def waitForQuote_def
      awaitQuoteUpdate_def handleMessage_def isConnectionHealthy_def CONNECTION_TIMEOUT_def
      isQuoteStale_def normalizeTimestamp_def toMarketData_def)

lemma connectForOrder_undated:
  assumes "map_of (connections m) smb = None" "1 \<le> maxRetries" "connectOk (envs 1)"
    "arrival (envs 1) = Some (dt, fq)" "int dt < QUOTE_TIMEOUT" "fq_symbol fq = smb"
    "fq_time fq = NotANumber \<or> fq_time fq = Undefined"
  shows "fst (connectForOrder smb maxRetries envs m)
         = Inr \<lparr>bid = fq_bid fq, ask = fq_ask fq, timestamp = fq_time fq, symbol = smb,
                isStale = False\<rparr>"
proof -
  obtain r ma where b: "orderAttemptBody smb (envs 1) m = (r, ma)"
    by (cases "orderAttemptBody smb (envs 1) m") auto
  have "r = Inr \<lparr>bid = fq_bid fq, ask = fq_ask fq, timestamp = fq_time fq, symbol = smb,
                  isStale = False\<rparr>"
    using orderAttemptBody_undated [OF assms(1,3-7)] b by simp
  then show ?thesis
    using assms(2) b
    by (simp add: connectForOrder_def connectForOrderFrom.simps [of smb maxRetries envs "Suc 0"])
qed

lemma undated_not_stale:
  "ts = NotANumber \<or> ts = Undefined \<Longrightarrow> \<not> isQuoteStale now ts"
  by (auto simp add: isQuoteStale_def)

lemma getMarketDataWithRetry_undated:
  assumes "map_of (connections m) smb = None"
    "connectOk (firstCall env 1)" "arrival (firstCall env 1) = Some (dt1, fq1)"
    "int dt1 < QUOTE_TIMEOUT" "fq_symbol fq1 = smb"
    "fq_time fq1 = NotANumber \<or> fq_time fq1 = Undefined"
    "connectOk (secondCall env 1)" "arrival (secondCall env 1) = Some (dt2, fq2)"
    "int dt2 < QUOTE_TIMEOUT" "fq_symbol fq2 = smb"
    "fq_time fq2 = NotANumber \<or> fq_time fq2 = Undefined"
  shows "\<exists>md. fst (getMarketDataWithRetry smb env m) = Inr md \<and> \<not> isStale md
              \<and> (timestamp md = NotANumber \<or> timestamp md = Undefined)"
proof -
  define md1 where
    "md1 = \<lparr>bid = fq_bid fq1, ask = fq_ask fq1, timestamp = fq_time fq1, symbol = smb,
            isStale = False\<rparr>"
  define md2 where
    "md2 = \<lparr>bid = fq_bid fq2, ask = fq_ask fq2, timestamp = fq_time fq2, symbol = smb,
            isStale = False\<rparr>"
  obtain ma where c: "connectForOrder smb MAX_ORDER_RETRIES (firstCall env) m = (Inr md1, ma)"
    using connectForOrder_undated [of m smb MAX_ORDER_RETRIES "firstCall env" dt1 fq1]
      assms(1-6)
    by (cases "connectForOrder smb MAX_ORDER_RETRIES (firstCall env) m")
      (simp add: MAX_ORDER_RETRIES_def md1_def)
  have n1: "\<not> isStale md1" "\<not> isQuoteStale (clock ma) (timestamp md1)"
    "timestamp md1 = NotANumber \<or> timestamp md1 = Undefined"
    using assms(6) undated_not_stale [of "fq_time fq1" "clock ma"] by (simp_all add: md1_def)
  show ?thesis
  proof (cases "isMarketDataValid md1")
    case True
    then have "fst (getMarketDataWithRetry smb env m) = Inr md1"
      using c n1 by (simp add: getMarketDataWithRetry_def)
    then show ?thesis
      using n1 by blast
  next
    case False
    define mb where
      "mb = (case map_of (connections ma) smb of
               None \<Rightarrow> ma
             | Some existingConnection \<Rightarrow>
                 ma\<lparr>totalReconnects := Suc (totalReconnects ma),
                    connections := mapDelete smb (connections ma)\<rparr>)"
    have e: "map_of (connections mb) smb = None"
      by (simp add: mb_def map_of_mapDelete split: option.splits)
    have "fst (connectForOrder smb MAX_ORDER_RETRIES (secondCall env) mb) = Inr md2"
      using connectForOrder_undated [of mb smb MAX_ORDER_RETRIES "secondCall env" dt2 fq2]
        e assms(7-11)
      by (simp add: MAX_ORDER_RETRIES_def md2_def)
    then have "fst (getMarketDataWithRetry smb env m) = Inr md2"
      using c False by (simp add: getMarketDataWithRetry_def forceReconnectForSymbol_def mb_def)
    moreover have "\<not> isStale md2" "timestamp md2 = NotANumber \<or> timestamp md2 = Undefined"
      using assms(11) by (simp_all add: md2_def)
    ultimately show ?thesis
      by blast
  qed
qed

lemmas ws_eval = orderAttemptBody_def waitForQuote_def awaitQuoteUpdate_def handleMessage_def
  newConnection_def subscribeToSymbol_def isQuoteStale_def isConnectionHealthy_def
  normalizeTimestamp_def toMarketData_def mapDelete_def orderAttemptCatch_def
  CONNECTION_TIMEOUT_def PRICE_STALE_THRESHOLD_def MAX_ORDER_RETRIES_def
  CONNECTION_RETRY_DELAY_BASE_def QUOTE_TIMEOUT_def connectForOrder_def
  connectForOrderFrom.simps forceReconnectForSymbol_def

lemmas sample_eval = sampleManager_def sampleFeedQuote_def sampleAttempt_def sampleMarket_def
  sampleQuote_def staleAttempt_def crossedQuote_def crossedManager_def crossedAttempt_def
  crossedMarket_def staleMarket_def lateMarket_def lateAttempt_def undatedAttempt_def
  undatedMarket_def unreadableAttempt_def unreadableMarket_def

lemma sampleQuote_valid: "isMarketDataValid (toMarketData ''EURUSD'' sampleQuote)"
  by (simp add: isMarketDataValid_def toMarketData_def sampleQuote_def fl_eval)

lemma sample_connectForOrder:
  "connectForOrder ''EURUSD'' MAX_ORDER_RETRIES (\<lambda>k. sampleAttempt) sampleManager =
     (Inr (toMarketData ''EURUSD'' sampleQuote),
      \<lparr>connections =
         [(''EURUSD'', \<lparr>wsOpen = True, symbols = {''EURUSD''}, lastActivity = 1700000000500,
                        quotes = [''EURUSD'' \<mapsto> sampleQuote], reconnectCount = 0\<rparr>)],
       totalReconnects = 0, clock = 1700000000500\<rparr>)"
  by (simp add: ws_eval sample_eval Let_def)

lemma sample_getMarketDataWithRetry:
  "getMarketDataWithRetry ''EURUSD'' sampleMarket sampleManager =
     (Inr (toMarketData ''EURUSD'' sampleQuote),
      \<lparr>connections =
         [(''EURUSD'', \<lparr>wsOpen = True, symbols = {''EURUSD''}, lastActivity = 1700000000500,
                        quotes = [''EURUSD'' \<mapsto> sampleQuote], reconnectCount = 0\<rparr>)],
       totalReconnects = 0, clock = 1700000000500\<rparr>)"
  unfolding getMarketDataWithRetry_def
  by (simp add: sampleMarket_def sample_connectForOrder sampleQuote_valid)
    (simp add: toMarketData_def sampleQuote_def isQuoteStale_def PRICE_STALE_THRESHOLD_def)

lemma undated_invalid:
  "\<not> isMarketDataValid \<lparr>bid = b, ask = a, timestamp = Undefined, symbol = s, isStale = st\<rparr>"
  by (simp add: isMarketDataValid_def)

lemma unreadable_valid:
  "isMarketDataValid \<lparr>bid = fl (10999 / 10000), ask = fl (11 / 10), timestamp = NotANumber,
     symbol = s, isStale = False\<rparr>"
  by (simp add: isMarketDataValid_def fl_eval)

lemma undated_connectForOrder:
  "connectForOrder ''EURUSD'' MAX_ORDER_RETRIES (\<lambda>k. undatedAttempt)
     \<lparr>connections = [], totalReconnects = n, clock = t\<rparr> =
     (Inr \<lparr>bid = fl (10999 / 10000), ask = fl (11 / 10), timestamp = Undefined,
            symbol = ''EURUSD'', isStale = False\<rparr>,
      \<lparr>connections =
         [(''EURUSD'', \<lparr>wsOpen = True, symbols = {''EURUSD''}, lastActivity = t + 500,
                        quotes = [''EURUSD'' \<mapsto> \<lparr>bid = fl (10999 / 10000), ask = fl (11 / 10),
                                                  timestamp = Undefined\<rparr>],
                        reconnectCount = 0\<rparr>)],
       totalReconnects = n, clock = t + 500\<rparr>)"
  by (simp add: ws_eval sample_eval Let_def)

lemma undated_getMarketDataWithRetry:
  "fst (getMarketDataWithRetry ''EURUSD'' undatedMarket sampleManager)
   = Inr \<lparr>bid = fl (10999 / 10000), ask = fl (11 / 10), timestamp = Undefined,
          symbol = ''EURUSD'', isStale = False\<rparr>"
proof -
  have f: "firstCall undatedMarket = (\<lambda>k. undatedAttempt)"
    "secondCall undatedMarket = (\<lambda>k. undatedAttempt)"
    by (simp_all add: undatedMarket_def)
  have r: "forceReconnectForSymbol ''EURUSD'' (\<lambda>k. undatedAttempt)
             \<lparr>connections =
                [(''EURUSD'', \<lparr>wsOpen = True, symbols = {''EURUSD''},
                   lastActivity = 1700000000000 + 500,
                   quotes = [''EURUSD'' \<mapsto> \<lparr>bid = fl (10999 / 10000), ask = fl (11 / 10),
                                             timestamp = Undefined\<rparr>],
                   reconnectCount = 0\<rparr>)],
              totalReconnects = 0, clock = 1700000000000 + 500\<rparr>
           = connectForOrder ''EURUSD'' MAX_ORDER_RETRIES (\<lambda>k. undatedAttempt)
               \<lparr>connections = [], totalReconnects = Suc 0, clock = 1700000000000 + 500\<rparr>"
    by (simp add: forceReconnectForSymbol_def mapDelete_def)
  show ?thesis
    unfolding getMarketDataWithRetry_def f sampleManager_def undated_connectForOrder prod.case
      sum.case
    by (simp only: undated_invalid not_False_eq_True if_True r undated_connectForOrder fst_conv)
qed

lemma unreadable_getMarketDataWithRetry:
  "fst (getMarketDataWithRetry ''EURUSD'' unreadableMarket sampleManager)
   = Inr \<lparr>bid = fl (10999 / 10000), ask = fl (11 / 10), timestamp = NotANumber,
          symbol = ''EURUSD'', isStale = False\<rparr>"
proof -
  have c: "connectForOrder ''EURUSD'' MAX_ORDER_RETRIES (\<lambda>k. unreadableAttempt) sampleManager =
     (Inr \<lparr>bid = fl (10999 / 10000), ask = fl (11 / 10), timestamp = NotANumber,
            symbol = ''EURUSD'', isStale = False\<rparr>,
      \<lparr>connections =
         [(''EURUSD'', \<lparr>wsOpen = True, symbols = {''EURUSD''}, lastActivity = 1700000000500,
                        quotes = [''EURUSD'' \<mapsto> \<lparr>bid = fl (10999 / 10000), ask = fl (11 / 10),
                                                  timestamp = NotANumber\<rparr>],
                        reconnectCount = 0\<rparr>)],
       totalReconnects = 0, clock = 1700000000500\<rparr>)"
    by (simp add: ws_eval sample_eval Let_def)
  show ?thesis
    unfolding getMarketDataWithRetry_def
    by (simp add: unreadableMarket_def c unreadable_valid isQuoteStale_def)
qed

text \<open>
  Claim C3 on the code. Market data returned by \<open>connectForOrder\<close> or
  \<open>getMarketDataWithRetry\<close> is never flagged stale, and when its timestamp is a number the
  quote is at most \<open>PRICE_STALE_THRESHOLD\<close> = 10000 ms older than the clock reading at the
  return; a feed that only delivers quotes with a timestamp older than the threshold makes
  \<open>connectForOrder\<close> fail instead of returning one of them. The test for a stale quote is
  false, however, for a timestamp that is absent or not a number: the first quote of such a
  kind that reaches a new connection is returned by \<open>connectForOrder\<close> as not stale, and
  \<open>getMarketDataWithRetry\<close> returns a quote of such a kind as well, of unknown age.
\<close>

theorem C3_returned_quote_fresh_unless_undated:
  "(connectForOrder smb maxRetries envs m = (Inr md, m1)
      \<longrightarrow> \<not> isStale md \<and> (\<forall>t. timestamp md = Millis t \<longrightarrow> clock m1 - t \<le> 10000))
   \<and> (getMarketDataWithRetry smb env m = (Inr md2, m2)
      \<longrightarrow> \<not> isStale md2 \<and> (\<forall>t. timestamp md2 = Millis t \<longrightarrow> clock m2 - t \<le> 10000))
   \<and> (map_of (connections m3) smb = None
       \<and> (\<forall>k dt fq. arrival (envs3 k) = Some (dt, fq)
              \<longrightarrow> (\<exists>t. normalizeTimestamp (fq_time fq) = Millis t \<and> clock m3 - t > 10000))
      \<longrightarrow> (\<exists>e m4. connectForOrder smb maxRetries envs3 m3 = (Inl e, m4)))
   \<and> (map_of (connections m5) smb = None \<and> 1 \<le> maxRetries \<and> connectOk (envs5 1)
       \<and> arrival (envs5 1) = Some (dt5, fq5) \<and> int dt5 < QUOTE_TIMEOUT \<and> fq_symbol fq5 = smb
       \<and> (fq_time fq5 = NotANumber \<or> fq_time fq5 = Undefined)
      \<longrightarrow> fst (connectForOrder smb maxRetries envs5 m5)
          = Inr \<lparr>bid = fq_bid fq5, ask = fq_ask fq5, timestamp = fq_time fq5, symbol = smb,
                 isStale = False\<rparr>)
   \<and> (map_of (connections m6) smb = None
       \<and> connectOk (firstCall env6 1) \<and> arrival (firstCall env6 1) = Some (dt6, fq6)
       \<and> int dt6 < QUOTE_TIMEOUT \<and> fq_symbol fq6 = smb
       \<and> (fq_time fq6 = NotANumber \<or> fq_time fq6 = Undefined)
       \<and> connectOk (secondCall env6 1) \<and> arrival (secondCall env6 1) = Some (dt7, fq7)
       \<and> int dt7 < QUOTE_TIMEOUT \<and> fq_symbol fq7 = smb
       \<and> (fq_time fq7 = NotANumber \<or> fq_time fq7 = Undefined)
      \<longrightarrow> (\<exists>md. fst (getMarketDataWithRetry smb env6 m6) = Inr md \<and> \<not> isStale md
                \<and> (timestamp md = NotANumber \<or> timestamp md = Undefined)))"
proof (intro conjI impI allI; (elim conjE)?)
  assume "connectForOrder smb maxRetries envs m = (Inr md, m1)"
  then have f: "\<not> isQuoteStale (clock m1) (timestamp md) \<and> \<not> isStale md"
    by (rule connectForOrder_fresh)
  show "\<not> isStale md"
    using f by simp
  show "clock m1 - t \<le> 10000" if "timestamp md = Millis t" for t
    using f that by (simp add: isQuoteStale_def PRICE_STALE_THRESHOLD_def)
next
  assume "getMarketDataWithRetry smb env m = (Inr md2, m2)"
  then have f: "\<not> isQuoteStale (clock m2) (timestamp md2) \<and> \<not> isStale md2"
    by (rule getMarketDataWithRetry_fresh)
  show "\<not> isStale md2"
    using f by simp
  show "clock m2 - t \<le> 10000" if "timestamp md2 = Millis t" for t
    using f that by (simp add: isQuoteStale_def PRICE_STALE_THRESHOLD_def)
next
  assume a: "map_of (connections m3) smb = None"
    "\<forall>k dt fq. arrival (envs3 k) = Some (dt, fq)
              \<longrightarrow> (\<exists>t. normalizeTimestamp (fq_time fq) = Millis t \<and> clock m3 - t > 10000)"
  have "\<exists>t. normalizeTimestamp (fq_time fq) = Millis t \<and> t < clock m3 - PRICE_STALE_THRESHOLD"
    if h: "arrival (envs3 k) = Some (dt, fq)" for k dt fq
  proof -
    obtain t where "normalizeTimestamp (fq_time fq) = Millis t" "clock m3 - t > 10000"
      using a(2) h by blast
    then show ?thesis
      by (simp add: PRICE_STALE_THRESHOLD_def)
  qed
  then have "\<forall>k dt fq. arrival (envs3 k) = Some (dt, fq)
           \<longrightarrow> (\<exists>t. normalizeTimestamp (fq_time fq) = Millis t
                    \<and> t < clock m3 - PRICE_STALE_THRESHOLD)"
    by blast
  then show "\<exists>e m4. connectForOrder smb maxRetries envs3 m3 = (Inl e, m4)"
    unfolding connectForOrder_def
    using connectForOrderFrom_stale_feed [of m3 smb envs3 "clock m3" maxRetries 1 None] a(1)
    by simp
next
  assume "map_of (connections m5) smb = None" "1 \<le> maxRetries" "connectOk (envs5 1)"
    "arrival (envs5 1) = Some (dt5, fq5)" "int dt5 < QUOTE_TIMEOUT" "fq_symbol fq5 = smb"
    "fq_time fq5 = NotANumber \<or> fq_time fq5 = Undefined"
  then show "fst (connectForOrder smb maxRetries envs5 m5)
          = Inr \<lparr>bid = fq_bid fq5, ask = fq_ask fq5, timestamp = fq_time fq5, symbol = smb,
                 isStale = False\<rparr>"
    by (rule connectForOrder_undated)
next
  assume "map_of (connections m6) smb = None"
    "connectOk (firstCall env6 1)" "arrival (firstCall env6 1) = Some (dt6, fq6)"
    "int dt6 < QUOTE_TIMEOUT" "fq_symbol fq6 = smb"
    "fq_time fq6 = NotANumber \<or> fq_time fq6 = Undefined"
    "connectOk (secondCall env6 1)" "arrival (secondCall env6 1) = Some (dt7, fq7)"
    "int dt7 < QUOTE_TIMEOUT" "fq_symbol fq7 = smb"
    "fq_time fq7 = NotANumber \<or> fq_time fq7 = Undefined"
  then show "\<exists>md. fst (getMarketDataWithRetry smb env6 m6) = Inr md \<and> \<not> isStale md
                \<and> (timestamp md = NotANumber \<or> timestamp md = Undefined)"
    by (rule getMarketDataWithRetry_undated)
qed

theorem C3_sample_feeds_witness:
  "fst (connectForOrder ''EURUSD'' MAX_ORDER_RETRIES (\<lambda>k. sampleAttempt) sampleManager)
     = Inr (toMarketData ''EURUSD'' sampleQuote)
   \<and> fst (getMarketDataWithRetry ''EURUSD'' sampleMarket sampleManager)
     = Inr (toMarketData ''EURUSD'' sampleQuote)
   \<and> timestamp (toMarketData ''EURUSD'' sampleQuote) = Millis 1700000000400
   \<and> clock (snd (connectForOrder ''EURUSD'' MAX_ORDER_RETRIES (\<lambda>k. sampleAttempt) sampleManager))
       - 1700000000400 \<le> 10000
   \<and> clock (snd (getMarketDataWithRetry ''EURUSD'' sampleMarket sampleManager))
       - 1700000000400 \<le> 10000
   \<and> map_of (connections sampleManager) ''EURUSD'' = None
   \<and> normalizeTimestamp (Millis 1699999980000) = Millis 1699999980000
   \<and> clock sampleManager - 1699999980000 > 10000
   \<and> (\<exists>e m4. connectForOrder ''EURUSD'' MAX_ORDER_RETRIES (\<lambda>k. staleAttempt) sampleManager
         = (Inl e, m4))
   \<and> fst (connectForOrder ''EURUSD'' MAX_ORDER_RETRIES (\<lambda>k. undatedAttempt) sampleManager)
     = Inr \<lparr>bid = fl (10999 / 10000), ask = fl (11 / 10), timestamp = Undefined,
            symbol = ''EURUSD'', isStale = False\<rparr>
   \<and> (\<exists>md. fst (getMarketDataWithRetry ''EURUSD'' undatedMarket sampleManager) = Inr md
          \<and> \<not> isStale md \<and> (timestamp md = NotANumber \<or> timestamp md = Undefined))
   \<and> fst (getMarketDataWithRetry ''EURUSD'' undatedMarket sampleManager)
     = Inr \<lparr>bid = fl (10999 / 10000), ask = fl (11 / 10), timestamp = Undefined,
            symbol = ''EURUSD'', isStale = False\<rparr>
   \<and> fst (getMarketDataWithRetry ''EURUSD'' unreadableMarket sampleManager)
     = Inr \<lparr>bid = fl (10999 / 10000), ask = fl (11 / 10), timestamp = NotANumber,
            symbol = ''EURUSD'', isStale = False\<rparr>"
proof -
  note c = C3_returned_quote_fresh_unless_undated
    [where smb = "''EURUSD''" and maxRetries = MAX_ORDER_RETRIES and envs = "\<lambda>k. sampleAttempt"
       and m = sampleManager and md = "toMarketData ''EURUSD'' sampleQuote"
       and ?m1.0 = "snd (connectForOrder ''EURUSD'' MAX_ORDER_RETRIES (\<lambda>k. sampleAttempt)
                          sampleManager)"
       and env = sampleMarket and ?md2.0 = "toMarketData ''EURUSD'' sampleQuote"
       and ?m2.0 = "snd (getMarketDataWithRetry ''EURUSD'' sampleMarket sampleManager)"
       and ?m3.0 = sampleManager and ?envs3.0 = "\<lambda>k. staleAttempt"
       and ?m5.0 = sampleManager and ?envs5.0 = "\<lambda>k. undatedAttempt" and ?dt5.0 = 200
       and ?fq5.0 = "sampleFeedQuote\<lparr>fq_time := Undefined\<rparr>"
       and ?m6.0 = sampleManager and ?env6.0 = undatedMarket and ?dt6.0 = 200
       and ?fq6.0 = "sampleFeedQuote\<lparr>fq_time := Undefined\<rparr>" and ?dt7.0 = 200
       and ?fq7.0 = "sampleFeedQuote\<lparr>fq_time := Undefined\<rparr>"]
  have h1: "connectForOrder ''EURUSD'' MAX_ORDER_RETRIES (\<lambda>k. sampleAttempt) sampleManager =
     (Inr (toMarketData ''EURUSD'' sampleQuote),
      snd (connectForOrder ''EURUSD'' MAX_ORDER_RETRIES (\<lambda>k. sampleAttempt) sampleManager))"
    by (simp add: sample_connectForOrder)
  have h2: "getMarketDataWithRetry ''EURUSD'' sampleMarket sampleManager =
     (Inr (toMarketData ''EURUSD'' sampleQuote),
      snd (getMarketDataWithRetry ''EURUSD'' sampleMarket sampleManager))"
    by (simp add: sample_getMarketDataWithRetry)
  have t: "timestamp (toMarketData ''EURUSD'' sampleQuote) = Millis 1700000000400"
    by (simp add: toMarketData_def sampleQuote_def)
  have n: "map_of (connections sampleManager) ''EURUSD'' = None"
    "normalizeTimestamp (Millis 1699999980000) = Millis 1699999980000"
    "clock sampleManager - 1699999980000 > 10000"
    by (simp_all add: sampleManager_def normalizeTimestamp_def)
  have h3: "\<forall>k dt fq. arrival ((\<lambda>k. staleAttempt) k) = Some (dt, fq)
              \<longrightarrow> (\<exists>t. normalizeTimestamp (fq_time fq) = Millis t
                       \<and> clock sampleManager - t > 10000)"
    by (auto simp add: sampleManager_def staleAttempt_def sampleFeedQuote_def
        normalizeTimestamp_def)
  have u: "1 \<le> MAX_ORDER_RETRIES" "connectOk undatedAttempt"
    "arrival undatedAttempt = Some (200, sampleFeedQuote\<lparr>fq_time := Undefined\<rparr>)"
    "int 200 < QUOTE_TIMEOUT" "fq_symbol (sampleFeedQuote\<lparr>fq_time := Undefined\<rparr>) = ''EURUSD''"
    "fq_time (sampleFeedQuote\<lparr>fq_time := Undefined\<rparr>) = Undefined"
    "fq_bid (sampleFeedQuote\<lparr>fq_time := Undefined\<rparr>) = fl (10999 / 10000)"
    "fq_ask (sampleFeedQuote\<lparr>fq_time := Undefined\<rparr>) = fl (11 / 10)"
    "firstCall undatedMarket 1 = undatedAttempt" "secondCall undatedMarket 1 = undatedAttempt"
    by (simp_all add: MAX_ORDER_RETRIES_def undatedAttempt_def QUOTE_TIMEOUT_def
        sampleFeedQuote_def undatedMarket_def)
  have p1: "clock (snd (connectForOrder ''EURUSD'' MAX_ORDER_RETRIES (\<lambda>k. sampleAttempt)
                          sampleManager)) - 1700000000400 \<le> 10000"
    using c h1 t by blast
  have p2: "clock (snd (getMarketDataWithRetry ''EURUSD'' sampleMarket sampleManager))
              - 1700000000400 \<le> 10000"
    using c h2 t by blast
  have p3: "\<exists>e m4. connectForOrder ''EURUSD'' MAX_ORDER_RETRIES (\<lambda>k. staleAttempt) sampleManager
         = (Inl e, m4)"
    using c n(1) h3 by blast
  have p4: "fst (connectForOrder ''EURUSD'' MAX_ORDER_RETRIES (\<lambda>k. undatedAttempt) sampleManager)
     = Inr \<lparr>bid = fl (10999 / 10000), ask = fl (11 / 10), timestamp = Undefined,
            symbol = ''EURUSD'', isStale = False\<rparr>"
    using c n(1) u by simp
  have p5: "\<exists>md. fst (getMarketDataWithRetry ''EURUSD'' undatedMarket sampleManager) = Inr md
          \<and> \<not> isStale md \<and> (timestamp md = NotANumber \<or> timestamp md = Undefined)"
    using c n(1) u by simp
  have f1: "fst (connectForOrder ''EURUSD'' MAX_ORDER_RETRIES (\<lambda>k. sampleAttempt) sampleManager)
     = Inr (toMarketData ''EURUSD'' sampleQuote)"
    by (simp add: sample_connectForOrder)
  have f2: "fst (getMarketDataWithRetry ''EURUSD'' sampleMarket sampleManager)
     = Inr (toMarketData ''EURUSD'' sampleQuote)"
    by (simp add: sample_getMarketDataWithRetry)
  show ?thesis
    by (intro conjI f1 f2 t p1 p2 n p3 p4 p5 undated_getMarketDataWithRetry
        unreadable_getMarketDataWithRetry)
qed

text \<open>
  Claim C9 on the code. The first result of \<open>connectForOrder\<close> is checked with
  \<open>isMarketDataValid\<close>, but the result of the forced reconnection is returned unchecked:
  with a feed whose EURUSD quotes have the ask below the bid, \<open>getMarketDataWithRetry\<close>
  returns such a quote.
\<close>

theorem C9_reconnect_returns_invalid_quote:
  "fst (getMarketDataWithRetry ''EURUSD'' crossedMarket crossedManager)
     = Inr \<lparr>bid = fl (11 / 10), ask = fl (10999 / 10000), timestamp = Millis 1700000000400,
            symbol = ''EURUSD'', isStale = False\<rparr>
   \<and> \<not> isMarketDataValid \<lparr>bid = fl (11 / 10), ask = fl (10999 / 10000),
            timestamp = Millis 1700000000400, symbol = ''EURUSD'', isStale = False\<rparr>
   \<and> fl (10999 / 10000) < fl (11 / 10)
   \<and> totalReconnects (snd (getMarketDataWithRetry ''EURUSD'' crossedMarket crossedManager)) = 1"
proof -
  have v: "fl (10999 / 10000) < fl (11 / 10)"
    by (simp add: fl_eval)
  have f: "connectForOrder ''EURUSD'' MAX_ORDER_RETRIES (\<lambda>k. crossedAttempt) crossedManager
           = (Inr (toMarketData ''EURUSD'' crossedQuote), crossedManager)"
    by (simp add: ws_eval sample_eval Let_def)
  have i: "\<not> isMarketDataValid (toMarketData ''EURUSD'' crossedQuote)"
    using v by (simp add: isMarketDataValid_def toMarketData_def crossedQuote_def)
  have i2: "\<not> isMarketDataValid \<lparr>bid = fl (11 / 10), ask = fl (10999 / 10000),
            timestamp = Millis 1700000000400, symbol = ''EURUSD'', isStale = False\<rparr>"
    using v by (simp add: isMarketDataValid_def)
  have r: "forceReconnectForSymbol ''EURUSD'' (\<lambda>k. crossedAttempt) crossedManager
           = (Inr \<lparr>bid = fl (11 / 10), ask = fl (10999 / 10000), timestamp = Millis 1700000000400,
                   symbol = ''EURUSD'', isStale = False\<rparr>,
              \<lparr>connections =
                 [(''EURUSD'', \<lparr>wsOpen = True, symbols = {''EURUSD''},
                    lastActivity = 1700000000500,
                    quotes = [''EURUSD'' \<mapsto> \<lparr>bid = fl (11 / 10), ask = fl (10999 / 10000),
                                              timestamp = Millis 1700000000400\<rparr>],
                    reconnectCount = 0\<rparr>)],
               totalReconnects = 1, clock = 1700000000500\<rparr>)"
    by (simp add: ws_eval sample_eval Let_def)
  have g: "getMarketDataWithRetry ''EURUSD'' crossedMarket crossedManager
           = forceReconnectForSymbol ''EURUSD'' (\<lambda>k. crossedAttempt) crossedManager"
    unfolding getMarketDataWithRetry_def using f i by (simp add: crossedMarket_def)
  show ?thesis
    unfolding g r using v i2 by simp
qed

section \<open>Properties of the retry loop\<close>

lemma retry_step_ok:
  assumes "attempt \<le> maxRetries"
    and "tradeAttempt side amount lg tp sl smb (envs attempt) m = (Inr r, m1, acts)"
  shows "placeTradeWithRetryFrom side amount lg tp sl smb maxRetries envs attempt lastError m
         = (Inr r, m1, acts)"
  using assms by (simp add: placeTradeWithRetryFrom.simps)

lemma retry_step_fail:
  assumes "attempt \<le> maxRetries"
    and "tradeAttempt side amount lg tp sl smb (envs attempt) m = (Inl e, m1, acts)"
  shows "placeTradeWithRetryFrom side amount lg tp sl smb maxRetries envs attempt lastError m
         = prependActions (acts @ catchActions maxRetries attempt)
             (placeTradeWithRetryFrom side amount lg tp sl smb maxRetries envs (Suc attempt)
                (Some e) (tradeAttemptCatch maxRetries attempt m1))"
  using assms
  by (simp add: placeTradeWithRetryFrom.simps [of side amount lg tp sl smb maxRetries envs attempt])

lemma retry_done:
  assumes "maxRetries < attempt"
  shows "placeTradeWithRetryFrom side amount lg tp sl smb maxRetries envs attempt (Some e) m
         = (Inl e, m, [])"
  using assms by (simp add: placeTradeWithRetryFrom.simps)

lemma placeTradeWithRetry_three:
  "placeTradeWithRetry side amount lg tp sl smb 3 envs m =
     (case tradeAttempt side amount lg tp sl smb (envs 1) m of
        (Inr r, m1, a1) \<Rightarrow> (Inr r, m1, a1)
      | (Inl e1, m1, a1) \<Rightarrow>
          (case tradeAttempt side amount lg tp sl smb (envs 2) (m1\<lparr>clock := clock m1 + 2000\<rparr>) of
             (Inr r, m2, a2) \<Rightarrow> (Inr r, m2, a1 @ Sleep 2000 # a2)
           | (Inl e2, m2, a2) \<Rightarrow>
               (case tradeAttempt side amount lg tp sl smb (envs 3)
                       (m2\<lparr>clock := clock m2 + 4000\<rparr>) of
                  (Inr r, m3, a3) \<Rightarrow> (Inr r, m3, a1 @ Sleep 2000 # a2 @ Sleep 4000 # a3)
                | (Inl e3, m3, a3) \<Rightarrow> (Inl e3, m3, a1 @ Sleep 2000 # a2 @ Sleep 4000 # a3))))"
proof -
  obtain r1 m1 a1 where t1: "tradeAttempt side amount lg tp sl smb (envs 1) m = (r1, m1, a1)"
    by (metis prod_cases3)
  obtain r2 m2 a2 where
    t2: "tradeAttempt side amount lg tp sl smb (envs 2) (m1\<lparr>clock := clock m1 + 2000\<rparr>)
         = (r2, m2, a2)"
    by (metis prod_cases3)
  obtain r3 m3 a3 where
    t3: "tradeAttempt side amount lg tp sl smb (envs 3) (m2\<lparr>clock := clock m2 + 4000\<rparr>)
         = (r3, m3, a3)"
    by (metis prod_cases3)
  have c1: "tradeAttemptCatch 3 (Suc 0) m1 = m1\<lparr>clock := clock m1 + 2000\<rparr>"
    "catchActions 3 (Suc 0) = [Sleep 2000]"
    by (simp_all add: tradeAttemptCatch_def catchActions_def retryDelay_def)
  have c2: "tradeAttemptCatch 3 2 m2 = m2\<lparr>clock := clock m2 + 4000\<rparr>"
    "catchActions 3 2 = [Sleep 4000]"
    by (simp_all add: tradeAttemptCatch_def catchActions_def retryDelay_def)
  have c3: "tradeAttemptCatch 3 3 m3 = m3" "catchActions 3 3 = []"
    by (simp_all add: tradeAttemptCatch_def catchActions_def)
  have s2: "Suc (Suc 0) = 2" "Suc 2 = 3" by simp_all
  show ?thesis
  proof (cases r1)
    case (Inr r)
    then show ?thesis
      using t1 retry_step_ok [of 1 3 side amount lg tp sl smb envs m r m1 a1 None]
      by (simp add: placeTradeWithRetry_def)
  next
    case i1: (Inl e1)
    have f1: "placeTradeWithRetry side amount lg tp sl smb 3 envs m =
        prependActions (a1 @ [Sleep 2000])
          (placeTradeWithRetryFrom side amount lg tp sl smb 3 envs 2 (Some e1)
             (m1\<lparr>clock := clock m1 + 2000\<rparr>))"
      using t1 i1 retry_step_fail [of 1 3 side amount lg tp sl smb envs m e1 m1 a1 None]
      by (simp add: placeTradeWithRetry_def c1 s2)
    show ?thesis
    proof (cases r2)
      case (Inr r)
      then show ?thesis
        using t1 i1 t2 f1
          retry_step_ok [of 2 3 side amount lg tp sl smb envs "m1\<lparr>clock := clock m1 + 2000\<rparr>"
            r m2 a2 "Some e1"]
        by (simp add: prependActions_def)
    next
      case i2: (Inl e2)
      have f2: "placeTradeWithRetryFrom side amount lg tp sl smb 3 envs 2 (Some e1)
             (m1\<lparr>clock := clock m1 + 2000\<rparr>) =
          prependActions (a2 @ [Sleep 4000])
            (placeTradeWithRetryFrom side amount lg tp sl smb 3 envs 3 (Some e2)
               (m2\<lparr>clock := clock m2 + 4000\<rparr>))"
        using t2 i2
          retry_step_fail [of 2 3 side amount lg tp sl smb envs "m1\<lparr>clock := clock m1 + 2000\<rparr>"
            e2 m2 a2 "Some e1"]
        by (simp add: c2 s2)
      show ?thesis
      proof (cases r3)
        case (Inr r)
        then show ?thesis
          using t1 i1 t2 i2 t3 f1 f2
            retry_step_ok [of 3 3 side amount lg tp sl smb envs "m2\<lparr>clock := clock m2 + 4000\<rparr>"
              r m3 a3 "Some e2"]
          by (simp add: prependActions_def)
      next
        case i3: (Inl e3)
        have "placeTradeWithRetryFrom side amount lg tp sl smb 3 envs 3 (Some e2)
               (m2\<lparr>clock := clock m2 + 4000\<rparr>) =
            prependActions a3
              (placeTradeWithRetryFrom side amount lg tp sl smb 3 envs (Suc 3) (Some e3) m3)"
          using t3 i3
            retry_step_fail [of 3 3 side amount lg tp sl smb envs "m2\<lparr>clock := clock m2 + 4000\<rparr>"
              e3 m3 a3 "Some e2"]
          by (simp add: c3)
        then show ?thesis
          using t1 i1 t2 i2 t3 i3 f1 f2
            retry_done [of 3 "Suc 3" side amount lg tp sl smb envs e3 m3]
          by (simp add: prependActions_def)
      qed
    qed
  qed
qed

lemma placedOrders_append: "placedOrders (xs @ ys) = placedOrders xs + placedOrders ys"
  by (simp add: placedOrders_def)

lemma postOutcome_placed:
  "placedOrders [OrderPost r] = (case postOutcome r sp of Inl e \<Rightarrow> 0 | Inr x \<Rightarrow> 1)"
  by (cases r) (simp_all add: placedOrders_def postOutcome_def)

lemma placeTrade_placed:
  assumes "placeTrade side amount lg tpp slp smb env m = (r, m1, acts)"
  shows "placedOrders acts = (case r of Inl e \<Rightarrow> 0 | Inr x \<Rightarrow> 1)"
proof -
  have u: "placedOrders [OrderPost (Status 401), OrderPost r2] = placedOrders [OrderPost r2]"
    for r2
    by (simp add: placedOrders_def)
  show ?thesis
    using assms
    by (auto simp add: placeTrade_def Let_def u postOutcome_placed [symmetric]
        split: if_splits option.splits)
      (simp_all add: placedOrders_def)
qed


lemma placeTrade_fetches:
  assumes "placeTrade side amount lg tpp slp smb env m = (r, m1, acts)"
  shows "fetches acts = 0"
  using assms
  by (auto simp add: placeTrade_def Let_def fetches_def split: if_splits option.splits)

lemma tradeAttempt_effects:
  assumes "tradeAttempt side amount lg tp sl smb env m = (r, m1, acts)"
  shows "placedOrders acts = (case r of Inl e \<Rightarrow> 0 | Inr x \<Rightarrow> 1) \<and> fetches acts = 1"
proof -
  obtain g mg where g: "getMarketDataWithRetry smb (market env) m = (g, mg)"
    by (cases "getMarketDataWithRetry smb (market env) m") auto
  show ?thesis
  proof (cases g)
    case (Inl e)
    then show ?thesis
      using assms g by (auto simp add: tradeAttempt_def placedOrders_def fetches_def)
  next
    case (Inr md)
    define entry where "entry = (if isBuy side then ask md else bid md)"
    define lv where "lv = calculatePriceLevels side entry tp sl (getInstrumentSpecs smb)"
    define v where "v = validatePriceLevels side entry (fst lv) (snd lv) (getInstrumentSpecs smb)"
    have body: "tradeAttempt side amount lg tp sl smb env m =
        (if isStale md then (Inl MarketPriceTooOld, mg, [QuoteFetch])
         else case v of
                Invalid pe \<Rightarrow> (Inl (InvalidPriceLevels pe), mg, [QuoteFetch])
              | Valid \<Rightarrow>
                  (case placeTrade side amount lg (fst lv) (snd lv) smb (trade env) mg of
                     (r, m2, acts) \<Rightarrow> (r, m2, QuoteFetch # acts)))"
      unfolding tradeAttempt_def Let_def entry_def lv_def v_def g Inr by simp
    show ?thesis
    proof (cases "isStale md")
      case True
      then show ?thesis
        using assms body by (auto simp add: placedOrders_def fetches_def)
    next
      case False
      show ?thesis
      proof (cases v)
        case (Invalid pe)
        then show ?thesis
          using assms body False by (auto simp add: placedOrders_def fetches_def)
      next
        case Valid
        obtain r2 m2 a2 where
          p: "placeTrade side amount lg (fst lv) (snd lv) smb (trade env) mg = (r2, m2, a2)"
          by (metis prod_cases3)
        then have "r = r2" "acts = QuoteFetch # a2"
          using assms body False Valid by simp_all
        then show ?thesis
          using placeTrade_placed [OF p] placeTrade_fetches [OF p]
          by (simp add: placedOrders_def fetches_def)
      qed
    qed
  qed
qed

lemma fetches_append: "fetches (xs @ ys) = fetches xs + fetches ys"
  by (simp add: fetches_def)

lemma catchActions_effects:
  "placedOrders (catchActions maxRetries attempt) = 0 \<and> fetches (catchActions maxRetries attempt) = 0"
  by (simp add: catchActions_def placedOrders_def fetches_def)

lemma placeTradeWithRetryFrom_effects:
  "placeTradeWithRetryFrom side amount lg tp sl smb maxRetries envs attempt lastError m
     = (r, m1, acts)
   \<Longrightarrow> placedOrders acts = (case r of Inl e \<Rightarrow> 0 | Inr x \<Rightarrow> 1)
       \<and> fetches acts \<le> Suc maxRetries - attempt"
proof (induction side amount lg tp sl smb maxRetries envs attempt lastError m
    arbitrary: r m1 acts rule: placeTradeWithRetryFrom.induct)
  case (1 side amount lg tp sl smb maxRetries envs attempt lastError m)
  show ?case
  proof (cases "attempt \<le> maxRetries")
    case False
    then show ?thesis
      using "1.prems"
      by (auto simp add: placeTradeWithRetryFrom.simps placedOrders_def fetches_def
          split: option.splits)
  next
    case True
    obtain ra ma aa where
      t: "tradeAttempt side amount lg tp sl smb (envs attempt) m = (ra, ma, aa)"
      by (metis prod_cases3)
    note te = tradeAttempt_effects [OF t]
    show ?thesis
    proof (cases ra)
      case (Inr x)
      then have "r = Inr x" "acts = aa"
        using "1.prems" retry_step_ok [OF True, of side amount lg tp sl smb envs m x ma aa lastError]
          t by simp_all
      then show ?thesis
        using te Inr True by simp
    next
      case (Inl e)
      obtain rb mb ab where
        n: "placeTradeWithRetryFrom side amount lg tp sl smb maxRetries envs (Suc attempt)
              (Some e) (tradeAttemptCatch maxRetries attempt ma) = (rb, mb, ab)"
        by (metis prod_cases3)
      have ih: "placedOrders ab = (case rb of Inl e \<Rightarrow> 0 | Inr x \<Rightarrow> 1)
                \<and> fetches ab \<le> Suc maxRetries - Suc attempt"
        using "1.IH" [OF True t [symmetric] Inl refl n] .
      have "r = rb" "acts = (aa @ catchActions maxRetries attempt) @ ab"
        using "1.prems"
          retry_step_fail [OF True, of side amount lg tp sl smb envs m e ma aa lastError]
          t Inl n by (simp_all add: prependActions_def)
      then show ?thesis
        using te ih Inl True catchActions_effects [of maxRetries attempt]
        by (auto simp add: placedOrders_append fetches_append)
    qed
  qed
qed



lemma sample_prices_valid:
  assumes "0 < ts"
  shows "isMarketDataValid \<lparr>bid = fl (10999 / 10000), ask = fl (11 / 10), timestamp = Millis ts,
           symbol = s, isStale = False\<rparr>"
  using assms by (simp add: isMarketDataValid_def fl_eval)

lemma tradeAttempt_eval:
  assumes g: "getMarketDataWithRetry smb (market env) m = (Inr md, m1)"
    and f: "isStale md = False"
    and e: "(if isBuy side then ask md else bid md) = entry"
    and l: "calculatePriceLevels side entry tp sl (getInstrumentSpecs smb) = (tpp, slp)"
  shows "tradeAttempt side amount lg tp sl smb env m =
     (case validatePriceLevels side entry tpp slp (getInstrumentSpecs smb) of
        Invalid pe \<Rightarrow> (Inl (InvalidPriceLevels pe), m1, [QuoteFetch])
      | Valid \<Rightarrow> prependActions [QuoteFetch]
                   (placeTrade side amount lg tpp slp smb (trade env) m1))"
proof -
  have "tradeAttempt side amount lg tp sl smb env m =
     (case validatePriceLevels side entry (fst (tpp, slp)) (snd (tpp, slp))
             (getInstrumentSpecs smb) of
        Invalid pe \<Rightarrow> (Inl (InvalidPriceLevels pe), m1, [QuoteFetch])
      | Valid \<Rightarrow>
          (case placeTrade side amount lg (fst (tpp, slp)) (snd (tpp, slp)) smb (trade env) m1 of
             (r, m2, acts) \<Rightarrow> (r, m2, QuoteFetch # acts)))"
    unfolding tradeAttempt_def Let_def g prod.case sum.case f if_False e l ..
  then show ?thesis
    by (simp add: prependActions_def split: validation.splits prod.splits)
qed

lemmas gm_eval = getMarketDataWithRetry_def ws_eval sample_eval sample_prices_valid Let_def

lemma calm_market_1:
  "getMarketDataWithRetry ''EURUSD'' sampleMarket sampleManager =
     (Inr (toMarketData ''EURUSD'' sampleQuote),
      \<lparr>connections =
         [(''EURUSD'', \<lparr>wsOpen = True, symbols = {''EURUSD''}, lastActivity = 1700000000500,
                        quotes = [''EURUSD'' \<mapsto> sampleQuote], reconnectCount = 0\<rparr>)],
       totalReconnects = 0, clock = 1700000000500\<rparr>)"
  by (simp add: gm_eval)

lemma calm_market_later:
  assumes "1700000000500 \<le> t" "t \<le> 1700000010000"
  shows "getMarketDataWithRetry ''EURUSD'' sampleMarket
     \<lparr>connections =
         [(''EURUSD'', \<lparr>wsOpen = True, symbols = {''EURUSD''}, lastActivity = 1700000000500,
                        quotes = [''EURUSD'' \<mapsto> sampleQuote], reconnectCount = 0\<rparr>)],
       totalReconnects = 0, clock = t\<rparr> =
     (Inr (toMarketData ''EURUSD'' sampleQuote),
      \<lparr>connections =
         [(''EURUSD'', \<lparr>wsOpen = True, symbols = {''EURUSD''}, lastActivity = 1700000000500,
                        quotes = [''EURUSD'' \<mapsto> sampleQuote], reconnectCount = 0\<rparr>)],
       totalReconnects = 0, clock = t\<rparr>)"
  using assms by (simp add: gm_eval)

lemma stale_market:
  "getMarketDataWithRetry ''EURUSD'' staleMarket \<lparr>connections = [], totalReconnects = 0, clock = t\<rparr>
   = (Inl (MarketDataUnavailable (Some ReceivedStaleQuote)),
      \<lparr>connections = [], totalReconnects = 0, clock = t + 4500\<rparr>)"
  if "1700000000000 \<le> t"
  using that by (simp add: gm_eval)

lemma late_market:
  "getMarketDataWithRetry ''EURUSD'' lateMarket
     \<lparr>connections = [], totalReconnects = 0, clock = 1700000015000\<rparr>
   = (Inr (toMarketData ''EURUSD'' (sampleQuote\<lparr>timestamp := Millis 1700000015400\<rparr>)),
      \<lparr>connections =
         [(''EURUSD'', \<lparr>wsOpen = True, symbols = {''EURUSD''}, lastActivity = 1700000015500,
                        quotes = [''EURUSD'' \<mapsto> sampleQuote\<lparr>timestamp := Millis 1700000015400\<rparr>],
                        reconnectCount = 0\<rparr>)],
       totalReconnects = 0, clock = 1700000015500\<rparr>)"
  by (simp add: gm_eval)


lemma calm_attempt_first:
  "tradeAttempt ''BUY'' (fl (1 / 100)) ''12345'' 5 None ''EURUSD'' (calmScenario 1) sampleManager
   = (Inl (InvalidPriceLevels (TPDistanceBelowMinimum (1407374883553125 / 281474976710656) 10)),
      calmState 1700000000500, [QuoteFetch])"
proof -
  have g: "getMarketDataWithRetry ''EURUSD'' (market (calmScenario 1)) sampleManager
           = (Inr (toMarketData ''EURUSD'' sampleQuote), calmState 1700000000500)"
    by (simp add: calmScenario_def calm_market_1 calmState_def)
  have e: "(if isBuy ''BUY'' then ask (toMarketData ''EURUSD'' sampleQuote)
            else bid (toMarketData ''EURUSD'' sampleQuote)) = fl (11 / 10)"
    by (simp add: isBuy_def toMarketData_def sampleQuote_def)
  have f: "isStale (toMarketData ''EURUSD'' sampleQuote) = False"
    by (simp add: toMarketData_def)
  show ?thesis
    unfolding tradeAttempt_eval [OF g f e levels_tp5] validate_tp5 validation.case ..
qed

lemma calm_attempt_later:
  assumes "1700000000500 \<le> t" "t \<le> 1700000010000"
  shows "tradeAttempt ''BUY'' (fl (1 / 100)) ''12345'' 5 None ''EURUSD'' (calmScenario k)
           (calmState t)
   = (Inl (InvalidPriceLevels (TPDistanceBelowMinimum (1407374883553125 / 281474976710656) 10)),
      calmState t, [QuoteFetch])"
proof -
  have g: "getMarketDataWithRetry ''EURUSD'' (market (calmScenario k)) (calmState t)
           = (Inr (toMarketData ''EURUSD'' sampleQuote), calmState t)"
    using calm_market_later [OF assms] by (simp add: calmScenario_def calmState_def)
  have e: "(if isBuy ''BUY'' then ask (toMarketData ''EURUSD'' sampleQuote)
            else bid (toMarketData ''EURUSD'' sampleQuote)) = fl (11 / 10)"
    by (simp add: isBuy_def toMarketData_def sampleQuote_def)
  have f: "isStale (toMarketData ''EURUSD'' sampleQuote) = False"
    by (simp add: toMarketData_def)
  show ?thesis
    unfolding tradeAttempt_eval [OF g f e levels_tp5] validate_tp5 validation.case ..
qed

lemma calm_run:
  "placeTradeWithRetry ''BUY'' (fl (1 / 100)) ''12345'' 5 None ''EURUSD'' 3 calmScenario
     sampleManager
   = (Inl (InvalidPriceLevels (TPDistanceBelowMinimum (1407374883553125 / 281474976710656) 10)),
      calmState 1700000006500, [QuoteFetch, Sleep 2000, QuoteFetch, Sleep 4000, QuoteFetch])"
proof -
  have s1: "(calmState 1700000000500)\<lparr>clock := clock (calmState 1700000000500) + 2000\<rparr>
            = calmState 1700000002500"
    by (simp add: calmState_def)
  have s2: "(calmState 1700000002500)\<lparr>clock := clock (calmState 1700000002500) + 4000\<rparr>
            = calmState 1700000006500"
    by (simp add: calmState_def)
  have a2: "tradeAttempt ''BUY'' (fl (1 / 100)) ''12345'' 5 None ''EURUSD'' (calmScenario 2)
           (calmState 1700000002500)
   = (Inl (InvalidPriceLevels (TPDistanceBelowMinimum (1407374883553125 / 281474976710656) 10)),
      calmState 1700000002500, [QuoteFetch])"
    by (rule calm_attempt_later) simp_all
  have a3: "tradeAttempt ''BUY'' (fl (1 / 100)) ''12345'' 5 None ''EURUSD'' (calmScenario 3)
           (calmState 1700000006500)
   = (Inl (InvalidPriceLevels (TPDistanceBelowMinimum (1407374883553125 / 281474976710656) 10)),
      calmState 1700000006500, [QuoteFetch])"
    by (rule calm_attempt_later) simp_all
  show ?thesis
    unfolding placeTradeWithRetry_three calm_attempt_first prod.case sum.case s1 a2 s2 a3
    by simp
qed

text \<open>The scenario of two failed attempts and a third that places the order\<close>

lemma stale_attempt:
  assumes "1700000000000 \<le> t" "k = 1 \<or> k = 2"
  shows "tradeAttempt ''BUY'' (fl (1 / 100)) ''12345'' 50 None ''EURUSD'' (retryScenario k)
           (emptyState t)
   = (Inl (MarketDataUnavailable (Some ReceivedStaleQuote)), emptyState (t + 4500), [QuoteFetch])"
  using assms stale_market [of t]
  by (auto simp add: tradeAttempt_def retryScenario_def emptyState_def)

lemma late_placeTrade:
  "placeTrade ''BUY'' (fl (1 / 100)) ''12345'' (fl (1105 / 1000)) None ''EURUSD'' placedTrade
     (lateState 1700000015500)
   = (Inr \<lparr>marketOrders = [sampleOrder],
           spreadAtOpen = spreadOf (sampleQuote\<lparr>timestamp := Millis 1700000015400\<rparr>)
                            (getInstrumentSpecs ''EURUSD'')\<rparr>,
      lateState 1700000015650, [OrderPost (Response [sampleOrder])])"
  by (simp add: placeTrade_def Let_def getInstrumentSpecs_EURUSD getQuoteForSymbol_def
      isQuoteStale_def PRICE_STALE_THRESHOLD_def placedTrade_def postOutcome_def lateState_def
      sampleQuote_def)

lemma late_attempt:
  "tradeAttempt ''BUY'' (fl (1 / 100)) ''12345'' 50 None ''EURUSD'' (retryScenario 3)
     (emptyState 1700000015000)
   = (Inr \<lparr>marketOrders = [sampleOrder],
           spreadAtOpen = spreadOf (sampleQuote\<lparr>timestamp := Millis 1700000015400\<rparr>)
                            (getInstrumentSpecs ''EURUSD'')\<rparr>,
      lateState 1700000015650, [QuoteFetch, OrderPost (Response [sampleOrder])])"
proof -
  have g: "getMarketDataWithRetry ''EURUSD'' (market (retryScenario 3)) (emptyState 1700000015000)
           = (Inr (toMarketData ''EURUSD'' (sampleQuote\<lparr>timestamp := Millis 1700000015400\<rparr>)),
              lateState 1700000015500)"
    using late_market by (simp add: retryScenario_def emptyState_def lateState_def)
  have e: "(if isBuy ''BUY''
            then ask (toMarketData ''EURUSD'' (sampleQuote\<lparr>timestamp := Millis 1700000015400\<rparr>))
            else bid (toMarketData ''EURUSD'' (sampleQuote\<lparr>timestamp := Millis 1700000015400\<rparr>)))
           = fl (11 / 10)"
    by (simp add: isBuy_def toMarketData_def sampleQuote_def)
  have t: "trade (retryScenario 3) = placedTrade"
    by (simp add: retryScenario_def)
  have f: "isStale (toMarketData ''EURUSD'' (sampleQuote\<lparr>timestamp := Millis 1700000015400\<rparr>)) = False"
    by (simp add: toMarketData_def)
  show ?thesis
    unfolding tradeAttempt_eval [OF g f e levels_tp50] validate_tp50 validation.case t
      late_placeTrade
    by (simp add: prependActions_def)
qed

lemma retry_run:
  "placeTradeWithRetry ''BUY'' (fl (1 / 100)) ''12345'' 50 None ''EURUSD'' 3 retryScenario
     sampleManager
   = (Inr \<lparr>marketOrders = [sampleOrder],
           spreadAtOpen = spreadOf (sampleQuote\<lparr>timestamp := Millis 1700000015400\<rparr>)
                            (getInstrumentSpecs ''EURUSD'')\<rparr>,
      lateState 1700000015650,
      [QuoteFetch, Sleep 2000, QuoteFetch, Sleep 4000, QuoteFetch,
       OrderPost (Response [sampleOrder])])"
proof -
  have s0: "sampleManager = emptyState 1700000000000"
    by (simp add: sampleManager_def emptyState_def)
  have a1: "tradeAttempt ''BUY'' (fl (1 / 100)) ''12345'' 50 None ''EURUSD'' (retryScenario 1)
           (emptyState 1700000000000)
   = (Inl (MarketDataUnavailable (Some ReceivedStaleQuote)), emptyState 1700000004500,
      [QuoteFetch])"
    using stale_attempt [of 1700000000000 1] by simp
  have s1: "(emptyState 1700000004500)\<lparr>clock := clock (emptyState 1700000004500) + 2000\<rparr>
            = emptyState 1700000006500"
    by (simp add: emptyState_def)
  have a2: "tradeAttempt ''BUY'' (fl (1 / 100)) ''12345'' 50 None ''EURUSD'' (retryScenario 2)
           (emptyState 1700000006500)
   = (Inl (MarketDataUnavailable (Some ReceivedStaleQuote)), emptyState 1700000011000,
      [QuoteFetch])"
    using stale_attempt [of 1700000006500 2] by simp
  have s2: "(emptyState 1700000011000)\<lparr>clock := clock (emptyState 1700000011000) + 4000\<rparr>
            = emptyState 1700000015000"
    by (simp add: emptyState_def)
  show ?thesis
    unfolding placeTradeWithRetry_three s0 a1 prod.case sum.case s1 a2 s2 late_attempt
    by simp
qed


text \<open>
  Claim C7. With the cap of 3 attempts, \<open>placeTradeWithRetry\<close> runs the whole sequence
  (market data, price levels, validation, order) at most three times, waits 2000 ms after a
  failed first attempt and 4000 ms after a failed second one, does not wait after the third,
  and then fails with the error of the third attempt. For every cap, the broker has placed
  exactly one order when the call succeeds and none when it fails, and market data is fetched
  at most as many times as the cap allows.
\<close>

theorem C7_retry_cap_and_backoff:
  "placeTradeWithRetry side amount lg tp sl smb 3 envs m =
     (case tradeAttempt side amount lg tp sl smb (envs 1) m of
        (Inr r, m1, a1) \<Rightarrow> (Inr r, m1, a1)
      | (Inl e1, m1, a1) \<Rightarrow>
          (case tradeAttempt side amount lg tp sl smb (envs 2) (m1\<lparr>clock := clock m1 + 2000\<rparr>) of
             (Inr r, m2, a2) \<Rightarrow> (Inr r, m2, a1 @ Sleep 2000 # a2)
           | (Inl e2, m2, a2) \<Rightarrow>
               (case tradeAttempt side amount lg tp sl smb (envs 3)
                       (m2\<lparr>clock := clock m2 + 4000\<rparr>) of
                  (Inr r, m3, a3) \<Rightarrow> (Inr r, m3, a1 @ Sleep 2000 # a2 @ Sleep 4000 # a3)
                | (Inl e3, m3, a3) \<Rightarrow> (Inl e3, m3, a1 @ Sleep 2000 # a2 @ Sleep 4000 # a3))))
   \<and> placedOrders (snd (snd (placeTradeWithRetry side amount lg tp sl smb maxRetries envs m)))
       = (case fst (placeTradeWithRetry side amount lg tp sl smb maxRetries envs m) of
            Inl e \<Rightarrow> 0 | Inr r \<Rightarrow> 1)
   \<and> fetches (snd (snd (placeTradeWithRetry side amount lg tp sl smb maxRetries envs m)))
       \<le> maxRetries"
proof -
  obtain r m1 acts where
    p: "placeTradeWithRetryFrom side amount lg tp sl smb maxRetries envs 1 None m = (r, m1, acts)"
    by (metis prod_cases3)
  have "placedOrders acts = (case r of Inl e \<Rightarrow> 0 | Inr x \<Rightarrow> 1)
        \<and> fetches acts \<le> Suc maxRetries - 1"
    using p by (rule placeTradeWithRetryFrom_effects)
  then have "placedOrders (snd (snd (placeTradeWithRetry side amount lg tp sl smb maxRetries envs m)))
       = (case fst (placeTradeWithRetry side amount lg tp sl smb maxRetries envs m) of
            Inl e \<Rightarrow> 0 | Inr r \<Rightarrow> 1)"
    and "fetches (snd (snd (placeTradeWithRetry side amount lg tp sl smb maxRetries envs m)))
       \<le> maxRetries"
    using p by (simp_all add: placeTradeWithRetry_def)
  then show ?thesis
    using placeTradeWithRetry_three [of side amount lg tp sl smb envs m] by blast
qed

text \<open>The scenario of claim C7: the first two attempts fail (the feed is stale), the third
  succeeds; the run waits 2000 ms and 4000 ms and the broker places exactly one order.\<close>

theorem C7_retry_scenario_witness:
  "fst (placeTradeWithRetry ''BUY'' (fl (1 / 100)) ''12345'' 50 None ''EURUSD'' 3 retryScenario
          sampleManager)
     = Inr \<lparr>marketOrders = [sampleOrder],
            spreadAtOpen = spreadOf (sampleQuote\<lparr>timestamp := Millis 1700000015400\<rparr>)
                             (getInstrumentSpecs ''EURUSD'')\<rparr>
   \<and> snd (snd (placeTradeWithRetry ''BUY'' (fl (1 / 100)) ''12345'' 50 None ''EURUSD'' 3
                 retryScenario sampleManager))
     = [QuoteFetch, Sleep 2000, QuoteFetch, Sleep 4000, QuoteFetch,
        OrderPost (Response [sampleOrder])]
   \<and> placedOrders (snd (snd (placeTradeWithRetry ''BUY'' (fl (1 / 100)) ''12345'' 50 None
                 ''EURUSD'' 3 retryScenario sampleManager))) = 1"
proof -
  note c = C7_retry_cap_and_backoff [of "''BUY''" "fl (1 / 100)" "''12345''" 50 None "''EURUSD''"
      retryScenario sampleManager 3, THEN conjunct2, THEN conjunct1]
  have "placedOrders (snd (snd (placeTradeWithRetry ''BUY'' (fl (1 / 100)) ''12345'' 50 None
                 ''EURUSD'' 3 retryScenario sampleManager))) = 1"
    using c unfolding retry_run by simp
  then show ?thesis
    unfolding retry_run by simp
qed

text \<open>
  Claim C5, as stated: a validation failure ends the run without further attempts. It fails
  for a EURUSD buy with a take-profit distance of 5 pips on a calm market: the price levels
  are invalid in the first attempt, and the run still waits twice and fetches market data
  three times before it gives up.
\<close>

theorem C5_validation_retried_counterexample:
  "fst (tradeAttempt ''BUY'' (fl (1 / 100)) ''12345'' 5 None ''EURUSD'' (calmScenario 1)
          sampleManager)
     = Inl (InvalidPriceLevels
              (TPDistanceBelowMinimum (1407374883553125 / 281474976710656) 10))
   \<and> snd (snd (placeTradeWithRetry ''BUY'' (fl (1 / 100)) ''12345'' 5 None ''EURUSD'' 3
                 calmScenario sampleManager))
     = [QuoteFetch, Sleep 2000, QuoteFetch, Sleep 4000, QuoteFetch]"
  unfolding calm_run calm_attempt_first by simp

text \<open>
  Claim C5, amended. When the computed price levels of an attempt are invalid, that attempt
  posts no order and fails with the validation error, and the failure is handled like every
  other failure of an attempt: unless it was the last of the allowed attempts, the
  orchestrator waits \<open>attempt * 2000\<close> ms and runs the whole sequence again; after the last
  attempt it fails with the validation error.
\<close>

theorem C5_validation_failure_is_retried:
  "attempt \<le> maxRetries
   \<and> getMarketDataWithRetry smb (market (envs attempt)) m = (Inr md, m1)
   \<and> \<not> isStale md
   \<and> calculatePriceLevels side (if isBuy side then ask md else bid md) tp sl
         (getInstrumentSpecs smb) = (tpp, slp)
   \<and> validatePriceLevels side (if isBuy side then ask md else bid md) tpp slp
         (getInstrumentSpecs smb) = Invalid pe
   \<longrightarrow> tradeAttempt side amount lg tp sl smb (envs attempt) m
         = (Inl (InvalidPriceLevels pe), m1, [QuoteFetch])
       \<and> placeTradeWithRetryFrom side amount lg tp sl smb maxRetries envs attempt lastError m
         = (if attempt < maxRetries
            then prependActions [QuoteFetch, Sleep (attempt * 2000)]
                   (placeTradeWithRetryFrom side amount lg tp sl smb maxRetries envs
                      (Suc attempt) (Some (InvalidPriceLevels pe))
                      (m1\<lparr>clock := clock m1 + int (attempt * 2000)\<rparr>))
            else (Inl (InvalidPriceLevels pe), m1, [QuoteFetch]))"
proof (intro impI)
  assume a: "attempt \<le> maxRetries
   \<and> getMarketDataWithRetry smb (market (envs attempt)) m = (Inr md, m1)
   \<and> \<not> isStale md
   \<and> calculatePriceLevels side (if isBuy side then ask md else bid md) tp sl
         (getInstrumentSpecs smb) = (tpp, slp)
   \<and> validatePriceLevels side (if isBuy side then ask md else bid md) tpp slp
         (getInstrumentSpecs smb) = Invalid pe"
  then have le: "attempt \<le> maxRetries"
    and g: "getMarketDataWithRetry smb (market (envs attempt)) m = (Inr md, m1)"
    and f: "isStale md = False"
    and l: "calculatePriceLevels side (if isBuy side then ask md else bid md) tp sl
         (getInstrumentSpecs smb) = (tpp, slp)"
    and v: "validatePriceLevels side (if isBuy side then ask md else bid md) tpp slp
         (getInstrumentSpecs smb) = Invalid pe"
    by simp_all
  have t: "tradeAttempt side amount lg tp sl smb (envs attempt) m
         = (Inl (InvalidPriceLevels pe), m1, [QuoteFetch])"
    unfolding tradeAttempt_eval [OF g f refl l] v validation.case ..
  have n: "placeTradeWithRetryFrom side amount lg tp sl smb maxRetries envs attempt lastError m
         = prependActions ([QuoteFetch] @ catchActions maxRetries attempt)
             (placeTradeWithRetryFrom side amount lg tp sl smb maxRetries envs (Suc attempt)
                (Some (InvalidPriceLevels pe)) (tradeAttemptCatch maxRetries attempt m1))"
    using le t by (rule retry_step_fail)
  show "tradeAttempt side amount lg tp sl smb (envs attempt) m
         = (Inl (InvalidPriceLevels pe), m1, [QuoteFetch])
       \<and> placeTradeWithRetryFrom side amount lg tp sl smb maxRetries envs attempt lastError m
         = (if attempt < maxRetries
            then prependActions [QuoteFetch, Sleep (attempt * 2000)]
                   (placeTradeWithRetryFrom side amount lg tp sl smb maxRetries envs
                      (Suc attempt) (Some (InvalidPriceLevels pe))
                      (m1\<lparr>clock := clock m1 + int (attempt * 2000)\<rparr>))
            else (Inl (InvalidPriceLevels pe), m1, [QuoteFetch]))"
  proof (cases "attempt < maxRetries")
    case True
    then show ?thesis
      using t n by (simp add: catchActions_def tradeAttemptCatch_def retryDelay_def)
  next
    case False
    then have "maxRetries < Suc attempt" by simp
    then have "placeTradeWithRetryFrom side amount lg tp sl smb maxRetries envs (Suc attempt)
                (Some (InvalidPriceLevels pe)) m1 = (Inl (InvalidPriceLevels pe), m1, [])"
      by (rule retry_done)
    then show ?thesis
      using t n False
      by (simp add: catchActions_def tradeAttemptCatch_def prependActions_def)
  qed
qed

theorem C5_validation_failure_is_retried_witness:
  "getMarketDataWithRetry ''EURUSD'' (market (calmScenario 1)) sampleManager
     = (Inr (toMarketData ''EURUSD'' sampleQuote), calmState 1700000000500)
   \<and> validatePriceLevels ''BUY'' (fl (11 / 10)) (fl (11005 / 10000)) None
        (getInstrumentSpecs ''EURUSD'')
     = Invalid (TPDistanceBelowMinimum (1407374883553125 / 281474976710656) 10)
   \<and> placeTradeWithRetryFrom ''BUY'' (fl (1 / 100)) ''12345'' 5 None ''EURUSD'' 3 calmScenario 1
        None sampleManager
     = prependActions [QuoteFetch, Sleep 2000]
         (placeTradeWithRetryFrom ''BUY'' (fl (1 / 100)) ''12345'' 5 None ''EURUSD'' 3
            calmScenario 2
            (Some (InvalidPriceLevels
                     (TPDistanceBelowMinimum (1407374883553125 / 281474976710656) 10)))
            (calmState 1700000002500))"
proof -
  have g: "getMarketDataWithRetry ''EURUSD'' (market (calmScenario 1)) sampleManager
           = (Inr (toMarketData ''EURUSD'' sampleQuote), calmState 1700000000500)"
    by (simp add: calmScenario_def calm_market_1 calmState_def)
  have f: "\<not> isStale (toMarketData ''EURUSD'' sampleQuote)"
    by (simp add: toMarketData_def)
  have e: "(if isBuy ''BUY'' then ask (toMarketData ''EURUSD'' sampleQuote)
            else bid (toMarketData ''EURUSD'' sampleQuote)) = fl (11 / 10)"
    by (simp add: isBuy_def toMarketData_def sampleQuote_def)
  have h: "(1::nat) \<le> 3
   \<and> getMarketDataWithRetry ''EURUSD'' (market (calmScenario 1)) sampleManager
       = (Inr (toMarketData ''EURUSD'' sampleQuote), calmState 1700000000500)
   \<and> \<not> isStale (toMarketData ''EURUSD'' sampleQuote)
   \<and> calculatePriceLevels ''BUY''
         (if isBuy ''BUY'' then ask (toMarketData ''EURUSD'' sampleQuote)
          else bid (toMarketData ''EURUSD'' sampleQuote)) 5 None
         (getInstrumentSpecs ''EURUSD'') = (fl (11005 / 10000), None)
   \<and> validatePriceLevels ''BUY''
         (if isBuy ''BUY'' then ask (toMarketData ''EURUSD'' sampleQuote)
          else bid (toMarketData ''EURUSD'' sampleQuote)) (fl (11005 / 10000)) None
         (getInstrumentSpecs ''EURUSD'')
       = Invalid (TPDistanceBelowMinimum (1407374883553125 / 281474976710656) 10)"
    unfolding e using g f levels_tp5 validate_tp5 by simp
  have c: "placeTradeWithRetryFrom ''BUY'' (fl (1 / 100)) ''12345'' 5 None ''EURUSD'' 3
             calmScenario 1 None sampleManager
     = prependActions [QuoteFetch, Sleep (1 * 2000)]
         (placeTradeWithRetryFrom ''BUY'' (fl (1 / 100)) ''12345'' 5 None ''EURUSD'' 3
            calmScenario (Suc 1)
            (Some (InvalidPriceLevels
                     (TPDistanceBelowMinimum (1407374883553125 / 281474976710656) 10)))
            ((calmState 1700000000500)
               \<lparr>clock := clock (calmState 1700000000500) + int (1 * 2000)\<rparr>))"
    using C5_validation_failure_is_retried [of 1 3 "''EURUSD''" calmScenario sampleManager
        "toMarketData ''EURUSD'' sampleQuote" "calmState 1700000000500" "''BUY''" 5 None
        "fl (11005 / 10000)" None
        "TPDistanceBelowMinimum (1407374883553125 / 281474976710656) 10"
        "fl (1 / 100)" "''12345''" None] h
    by simp
  show ?thesis
    using g validate_tp5 c by (simp add: calmState_def numeral_2_eq_2)
qed

section \<open>Properties of the duplicate store\<close>

lemma list_ex_upsertOrder:
  "list_ex P (upsertOrder r xs) \<Longrightarrow> P r \<or> list_ex P xs"
  by (induction xs) (auto split: if_splits)

lemma storeProcessedId_historical:
  "sfx_historical_orders (snd (storeProcessedId alertId account now outcome qd))
   = sfx_historical_orders (snd qd)"
  by (simp add: storeProcessedId_def cleanupOldProcessedIds_def Let_def split: option.splits)

lemma removePendingOrder_fields:
  "db (removePendingOrder lg side sv) = db sv"
  "wq (removePendingOrder lg side sv) = wq sv"
  "brokerLog (removePendingOrder lg side sv) = brokerLog sv"
  "manager (removePendingOrder lg side sv) = manager sv"
  by (simp_all add: removePendingOrder_def)


lemma executionAlertId_differs: "executionAlertId alertId lg \<noteq> strOf alertId"
  by (simp add: executionAlertId_def)


lemma recordExecution_success:
  assumes "recordExecution data lg smb env tr sv = (Inr u, sv1)"
  shows "\<exists>order others lastQuote.
           marketOrders tr = order # others
         \<and> brokerLog sv1 = brokerLog sv
         \<and> (wq sv1, db sv1) =
             storeProcessedId (alert_id data) lg (clock (manager sv)) (storeDb env)
               (wq sv, (db sv)\<lparr>sfx_historical_orders :=
                  upsertOrder \<lparr>h_order_id = orderId order, h_login = lg,
                               h_alert_id = Some (executionAlertId (alert_id data) lg)\<rparr>
                    (sfx_historical_orders (db sv))\<rparr>)"
  using assms
  by (auto simp add: recordExecution_def Let_def removePendingOrder_fields
      removePendingOrder_def split: list.splits option.splits if_splits)









lemma historicalMatch_recorded:
  assumes "\<not> historicalMatch alertId lg d"
  shows "\<not> historicalMatch alertId lg
            (d\<lparr>sfx_historical_orders :=
                 upsertOrder \<lparr>h_order_id = oid, h_login = lg,
                              h_alert_id = Some (executionAlertId alertId lg)\<rparr>
                   (sfx_historical_orders d)\<rparr>)"
proof (cases alertId)
  case None
  then show ?thesis by (simp add: historicalMatch_def)
next
  case (Some a)
  have n: "executionAlertId (Some a) lg \<noteq> a"
    using executionAlertId_differs [of "Some a" lg] by (simp add: strOf_def)
  show ?thesis
  proof
    assume "historicalMatch alertId lg
            (d\<lparr>sfx_historical_orders :=
                 upsertOrder \<lparr>h_order_id = oid, h_login = lg,
                              h_alert_id = Some (executionAlertId alertId lg)\<rparr>
                   (sfx_historical_orders d)\<rparr>)"
    then have "list_ex (\<lambda>r. h_alert_id r = Some a \<and> h_login r = lg)
                 (upsertOrder \<lparr>h_order_id = oid, h_login = lg,
                              h_alert_id = Some (executionAlertId (Some a) lg)\<rparr>
                   (sfx_historical_orders d))"
      using Some by (simp add: historicalMatch_def)
    then have "list_ex (\<lambda>r. h_alert_id r = Some a \<and> h_login r = lg) (sfx_historical_orders d)"
      using list_ex_upsertOrder
        [of "\<lambda>r. h_alert_id r = Some a \<and> h_login r = lg"
          "\<lparr>h_order_id = oid, h_login = lg, h_alert_id = Some (executionAlertId (Some a) lg)\<rparr>"
          "sfx_historical_orders d"] n
      by auto
    then show False
      using assms Some by (simp add: historicalMatch_def)
  qed
qed

lemma historicalMatch_cong:
  "sfx_historical_orders d1 = sfx_historical_orders d2
   \<Longrightarrow> historicalMatch alertId lg d1 = historicalMatch alertId lg d2"
  by (simp add: historicalMatch_def split: option.splits)















lemma webhookEndpoint_recorded:
  assumes "processedMatch (Some a) lg (db sv)" "alert_id data = Some a" "a \<noteq> []"
    "alert_login data = Some lg" "lg \<noteq> []"
  shows "webhookEndpoint dflt madeUp True data sv = (AlreadyProcessedResponse, sv)"
  using assms by (simp add: webhookEndpoint_def truthyStr_def orderExistsWithAlertId_def)

lemma webhookEndpoint_duplicate:
  assumes "checkForDuplicate data lg (clock (manager sv)) (wq sv)"
    "alert_login data = Some lg" "lg \<noteq> []"
  shows "fst (webhookEndpoint dflt madeUp readable data sv) \<in> {AlreadyProcessedResponse, DuplicateIgnored}
         \<and> snd (webhookEndpoint dflt madeUp readable data sv) = sv"
  using assms by (simp add: webhookEndpoint_def truthyStr_def Let_def)







lemma sampleAlert_fields:
  "actionOf sampleAlert = ''BUY''" "alert_size sampleAlert = fl (1 / 100)"
  "alert_takeProfit sampleAlert = 50" "alert_stopLoss sampleAlert = None"
  "alert_id sampleAlert = Some ''A1''" "alert_login sampleAlert = Some ''12345''"
  by (simp_all add: sampleAlert_def actionOf_def truthyStr_def)

lemma sampleEnv_fields:
  "tradeEnvs (sampleEnv scenario) = scenario" "upsertOk (sampleEnv scenario)"
  "maxSizeOk (sampleEnv scenario)"
  "storeDb (sampleEnv scenario) = DbOk" "dbReadable (sampleEnv scenario)"
  by (simp_all add: sampleEnv_def)

lemma idleServer_fields:
  "manager (idleServer m) = m" "db (idleServer m) = \<lparr>processed_webhook_ids = [], sfx_historical_orders = []\<rparr>"
  "wq (idleServer m) = \<lparr>queue = [], processing = False, processedIds = []\<rparr>"
  "brokerLog (idleServer m) = []" "pendingOrders (idleServer m) lg = {}"
  by (simp_all add: idleServer_def)

lemma late_quote:
  "getQuoteForSymbol ''EURUSD'' (lateState 1700000015650)
   = Some (sampleQuote\<lparr>timestamp := Millis 1700000015400\<rparr>)"
  by (simp add: getQuoteForSymbol_def isQuoteStale_def PRICE_STALE_THRESHOLD_def
      lateState_def sampleQuote_def Let_def)











lemma recordExecution_historical:
  assumes "fst (recordExecution data lg smb env tr sv) = Inr u"
    "\<not> historicalMatch (alert_id data) lg (db sv)"
  shows "\<not> historicalMatch (alert_id data) lg (db (snd (recordExecution data lg smb env tr sv)))"
proof -
  define sv1 where "sv1 = snd (recordExecution data lg smb env tr sv)"
  have "recordExecution data lg smb env tr sv = (Inr u, sv1)"
    using assms(1) by (simp add: prod_eq_iff sv1_def)
  then obtain order others lastQuote where
    s: "marketOrders tr = order # others
         \<and> brokerLog sv1 = brokerLog sv
         \<and> (wq sv1, db sv1) =
             storeProcessedId (alert_id data) lg (clock (manager sv)) (storeDb env)
               (wq sv, (db sv)\<lparr>sfx_historical_orders :=
                  upsertOrder \<lparr>h_order_id = orderId order, h_login = lg,
                               h_alert_id = Some (executionAlertId (alert_id data) lg)\<rparr>
                    (sfx_historical_orders (db sv))\<rparr>)"
    using recordExecution_success by iprover
  have "db sv1 = snd (storeProcessedId (alert_id data) lg (clock (manager sv)) (storeDb env)
               (wq sv, (db sv)\<lparr>sfx_historical_orders :=
                  upsertOrder \<lparr>h_order_id = orderId order, h_login = lg,
                               h_alert_id = Some (executionAlertId (alert_id data) lg)\<rparr>
                    (sfx_historical_orders (db sv))\<rparr>))"
    using s by (metis snd_conv)
  then have "sfx_historical_orders (db sv1) =
      sfx_historical_orders ((db sv)\<lparr>sfx_historical_orders :=
                  upsertOrder \<lparr>h_order_id = orderId order, h_login = lg,
                               h_alert_id = Some (executionAlertId (alert_id data) lg)\<rparr>
                    (sfx_historical_orders (db sv))\<rparr>)"
    by (simp add: storeProcessedId_historical)
  then have "historicalMatch (alert_id data) lg (db sv1) =
      historicalMatch (alert_id data) lg ((db sv)\<lparr>sfx_historical_orders :=
                  upsertOrder \<lparr>h_order_id = orderId order, h_login = lg,
                               h_alert_id = Some (executionAlertId (alert_id data) lg)\<rparr>
                    (sfx_historical_orders (db sv))\<rparr>)"
    by (rule historicalMatch_cong)
  then show ?thesis
    using historicalMatch_recorded [OF assms(2)] by (simp add: sv1_def)
qed

text \<open>
  Claim C10. The order row that the execution path writes for a signal carries the alert id
  \<open>alertId_login\<close>, which differs from the alert id \<open>alertId\<close> that \<open>orderExistsWithAlertId\<close>
  looks up among the historical orders, whatever the login. So the row written for alert id
  \<open>a\<close> and login \<open>lg\<close> is not found by the look-up for \<open>a\<close> and \<open>lg\<close>: when the historical
  orders did not answer the look-up before a successful execution they do not answer it
  afterwards, and the duplicate check for the signal is then decided by the table of
  processed ids alone.
\<close>

theorem C10_historical_fallback_misses_executed_order:
  "executionAlertId (Some a) lg \<noteq> a
   \<and> \<not> historicalMatch (Some a) lg
         \<lparr>processed_webhook_ids = rows,
          sfx_historical_orders =
            [\<lparr>h_order_id = oid, h_login = lg,
              h_alert_id = Some (executionAlertId (Some a) lg)\<rparr>]\<rparr>
   \<and> (fst (recordExecution data lg smb env tr sv) = Inr u
        \<and> \<not> historicalMatch (alert_id data) lg (db sv)
      \<longrightarrow> \<not> historicalMatch (alert_id data) lg
               (db (snd (recordExecution data lg smb env tr sv)))
          \<and> orderExistsWithAlertId readable (alert_id data) lg
               (db (snd (recordExecution data lg smb env tr sv)))
             = (readable \<and> processedMatch (alert_id data) lg
                               (db (snd (recordExecution data lg smb env tr sv)))))"
proof -
  have n: "executionAlertId (Some a) lg \<noteq> a"
    using executionAlertId_differs [of "Some a" lg] by (simp add: strOf_def)
  have m: "\<not> historicalMatch (Some a) lg
         \<lparr>processed_webhook_ids = rows,
          sfx_historical_orders =
            [\<lparr>h_order_id = oid, h_login = lg,
              h_alert_id = Some (executionAlertId (Some a) lg)\<rparr>]\<rparr>"
    using n by (simp add: historicalMatch_def)
  have r: "\<not> historicalMatch (alert_id data) lg
               (db (snd (recordExecution data lg smb env tr sv)))
          \<and> orderExistsWithAlertId readable (alert_id data) lg
               (db (snd (recordExecution data lg smb env tr sv)))
             = (readable \<and> processedMatch (alert_id data) lg
                               (db (snd (recordExecution data lg smb env tr sv))))"
    if "fst (recordExecution data lg smb env tr sv) = Inr u"
      "\<not> historicalMatch (alert_id data) lg (db sv)"
    using recordExecution_historical [OF that] by (auto simp add: orderExistsWithAlertId_def)
  show ?thesis
    using n m r by blast
qed

theorem C10_sample_execution_witness:
  "fst (recordExecution sampleAlert ''12345'' ''EURUSD'' (sampleEnv retryScenario)
          \<lparr>marketOrders = [sampleOrder], spreadAtOpen = 1\<rparr>
          (idleServer (lateState 1700000015650))) = Inr ()
   \<and> \<not> historicalMatch (alert_id sampleAlert) ''12345''
         (db (idleServer (lateState 1700000015650)))
   \<and> \<not> historicalMatch (alert_id sampleAlert) ''12345''
         (db (snd (recordExecution sampleAlert ''12345'' ''EURUSD'' (sampleEnv retryScenario)
                    \<lparr>marketOrders = [sampleOrder], spreadAtOpen = 1\<rparr>
                    (idleServer (lateState 1700000015650)))))
   \<and> orderExistsWithAlertId True (alert_id sampleAlert) ''12345''
         (db (snd (recordExecution sampleAlert ''12345'' ''EURUSD'' (sampleEnv retryScenario)
                    \<lparr>marketOrders = [sampleOrder], spreadAtOpen = 1\<rparr>
                    (idleServer (lateState 1700000015650)))))
     = processedMatch (alert_id sampleAlert) ''12345''
         (db (snd (recordExecution sampleAlert ''12345'' ''EURUSD'' (sampleEnv retryScenario)
                    \<lparr>marketOrders = [sampleOrder], spreadAtOpen = 1\<rparr>
                    (idleServer (lateState 1700000015650)))))"
proof -
  have f: "fst (recordExecution sampleAlert ''12345'' ''EURUSD'' (sampleEnv retryScenario)
          \<lparr>marketOrders = [sampleOrder], spreadAtOpen = 1\<rparr>
          (idleServer (lateState 1700000015650))) = Inr ()"
    by (simp add: recordExecution_def late_quote sampleEnv_fields idleServer_fields Let_def)
  have h: "\<not> historicalMatch (alert_id sampleAlert) ''12345''
         (db (idleServer (lateState 1700000015650)))"
    by (simp add: historicalMatch_def idleServer_fields sampleAlert_fields)
  show ?thesis
    using C10_historical_fallback_misses_executed_order
      [of "''A1''" "''12345''" "[]" "''1001''" sampleAlert "''EURUSD''" "sampleEnv retryScenario"
        "\<lparr>marketOrders = [sampleOrder], spreadAtOpen = 1\<rparr>"
        "idleServer (lateState 1700000015650)" "()" True] f h
    by simp
qed
























lemma processJobMark_queue: "queue (processJobMark job q) = queue q"
  by (simp add: processJobMark_def Let_def)












section \<open>Properties of the per-account mutex\<close>


lemma holding_phase: "holding (w\<lparr>phaseOf := f\<rparr>) t = (f t = Granted \<or> f t = InCriticalSection)"
  by (simp add: holding_def)

lemma holding_mutexes: "holding (w\<lparr>loginMutexes := ms\<rparr>) t = holding w t"
  by (simp add: holding_def)






















end
